theory Spec2Isabelle
  imports Complex_Main
begin

section \<open>Python values\<close>

text \<open>
  The payloads, transactions and criteria of the program are Python dictionaries holding
  JSON-like values. A dictionary is an association list in insertion order; \<open>None\<close> is
  \<open>PNone\<close>. Floats are modelled by the real number they denote (no NaN, no infinity).
\<close>

datatype pyval =
    PNone
  | PBool bool
  | PInt int
  | PFloat real
  | PStr string
  | PList "pyval list"
  | PDict "(string \<times> pyval) list"

type_synonym pydict = "(string \<times> pyval) list"

text \<open>\<open>key in d\<close>, \<open>d.get(key)\<close> and \<open>d[key] = v\<close> (an existing key keeps its position, a
  new key is appended).\<close>

definition has_key :: "pydict \<Rightarrow> string \<Rightarrow> bool" where
  "has_key d k = (map_of d k \<noteq> None)"

definition dict_get :: "pydict \<Rightarrow> string \<Rightarrow> pyval" where
  "dict_get d k = (case map_of d k of None \<Rightarrow> PNone | Some v \<Rightarrow> v)"

fun setitem :: "('k \<times> 'v) list \<Rightarrow> 'k \<Rightarrow> 'v \<Rightarrow> ('k \<times> 'v) list" where
  "setitem [] k v = [(k, v)]"
| "setitem (p # ps) k v = (if fst p = k then (k, v) # ps else p # setitem ps k v)"

text \<open>Truth value testing (\<open>if x:\<close>, \<open>x or y\<close>).\<close>

fun truthy :: "pyval \<Rightarrow> bool" where
  "truthy PNone = False"
| "truthy (PBool b) = b"
| "truthy (PInt i) = (i \<noteq> 0)"
| "truthy (PFloat r) = (r \<noteq> 0)"
| "truthy (PStr s) = (s \<noteq> [])"
| "truthy (PList xs) = (xs \<noteq> [])"
| "truthy (PDict d) = (d \<noteq> [])"

text \<open>\<open>isinstance\<close> for the classes the program tests. \<open>bool\<close> is a subclass of \<open>int\<close>.\<close>

fun isinstance_str :: "pyval \<Rightarrow> bool" where
  "isinstance_str (PStr s) = True"
| "isinstance_str v = False"

fun isinstance_int :: "pyval \<Rightarrow> bool" where
  "isinstance_int (PInt i) = True"
| "isinstance_int (PBool b) = True"
| "isinstance_int v = False"

fun isinstance_float :: "pyval \<Rightarrow> bool" where
  "isinstance_float (PFloat r) = True"
| "isinstance_float v = False"

fun isinstance_bool :: "pyval \<Rightarrow> bool" where
  "isinstance_bool (PBool b) = True"
| "isinstance_bool v = False"

fun isinstance_dict :: "pyval \<Rightarrow> bool" where
  "isinstance_dict (PDict d) = True"
| "isinstance_dict v = False"

fun isinstance_list :: "pyval \<Rightarrow> bool" where
  "isinstance_list (PList xs) = True"
| "isinstance_list v = False"

text \<open>The numeric value of a bool, an int or a float, as \<open>==\<close> compares them.\<close>

fun py_num :: "pyval \<Rightarrow> real option" where
  "py_num (PBool b) = Some (if b then 1 else 0)"
| "py_num (PInt i) = Some (of_int i)"
| "py_num (PFloat r) = Some r"
| "py_num v = None"

lemma size_in_list [termination_simp]:
  "x \<in> set zs \<Longrightarrow> size (x::pyval) < Suc (size_list size zs)"
  by (induction zs) auto

lemma size_zip_left [termination_simp]:
  "(a, b) \<in> set (zip xs ys) \<Longrightarrow> size (a::pyval) < Suc (size_list size xs)"
  by (rule size_in_list) (rule set_zip_leftD)

lemma size_val_in_dict [termination_simp]:
  "(k, v) \<in> set xs \<Longrightarrow> size (v::pyval) < Suc (size_list (size_prod (\<lambda>_. 0) size) xs)"
  by (induction xs) auto

text \<open>Python's \<open>==\<close> on these values: numbers by value across bool, int and float, strings
  and \<open>None\<close> by identity of content, lists element by element, dictionaries key by key.\<close>

fun py_eq :: "pyval \<Rightarrow> pyval \<Rightarrow> bool" where
  "py_eq PNone PNone = True"
| "py_eq (PStr s) (PStr t) = (s = t)"
| "py_eq (PList xs) (PList ys) =
     (length xs = length ys \<and> list_all (\<lambda>(x, y). py_eq x y) (zip xs ys))"
| "py_eq (PDict xs) (PDict ys) =
     (length xs = length ys \<and>
      list_all (\<lambda>(k, v). case map_of ys k of None \<Rightarrow> False | Some w \<Rightarrow> py_eq v w) xs)"
| "py_eq a b = (case (py_num a, py_num b) of (Some x, Some y) \<Rightarrow> x = y | _ \<Rightarrow> False)"

text \<open>
  \<open>str.lower()\<close> is a method of the language, not code of the repository, and it follows
  the case mapping of Unicode, which is no table of this development: it is a parameter
  \<open>lower\<close> of the functions that call it, so that what is proved of them holds of every
  case mapping. \<open>ascii_lower\<close> is what \<open>str.lower()\<close> does to a string of ASCII characters;
  it serves to evaluate examples.
\<close>

type_synonym lowering = "string \<Rightarrow> string"

definition ascii_lower_char :: "char \<Rightarrow> char" where
  "ascii_lower_char c =
     (case map_of (zip ''ABCDEFGHIJKLMNOPQRSTUVWXYZ'' ''abcdefghijklmnopqrstuvwxyz'') c of
        None \<Rightarrow> c | Some l \<Rightarrow> l)"

definition ascii_lower :: lowering where
  "ascii_lower s = map ascii_lower_char s"

text \<open>The substring test \<open>sub in s\<close>.\<close>

fun str_in :: "string \<Rightarrow> string \<Rightarrow> bool" where
  "str_in sub [] = (sub = [])"
| "str_in sub (c # cs) = (take (length sub) (c # cs) = sub \<or> str_in sub cs)"

text \<open>The exceptions the program raises or meets. The first four are the \<open>ValueError\<close>s
  of the record store, named after their messages; \<open>KeyError\<close> carries the missing key;
  \<open>InterfaceError\<close> is raised by \<open>sqlite3\<close> for a value it cannot bind.\<close>

datatype py_error =
    MissingRequired string
  | TypeMismatch string
  | UnknownModel string
  | UnknownRecordId string
  | IndexError
  | AttributeError
  | IntegrityError
  | KeyError string
  | InterfaceError

section \<open>blockchain.py\<close>

record block =
  index :: nat
  transactions :: "pydict list"
  timestamp :: real
  previous_hash :: string
  nonce :: nat
  hash :: string

text \<open>
  \<open>calculate_hash\<close> is the SHA-256 hex digest of the key-sorted JSON text of the five
  fields below. \<open>hashlib\<close> and \<open>json\<close> are libraries, not code of the repository: the
  digest of the serialisation is a parameter \<open>H\<close> of every function that hashes.
\<close>

type_synonym hasher = "nat \<Rightarrow> pydict list \<Rightarrow> real \<Rightarrow> string \<Rightarrow> nat \<Rightarrow> string"

definition calculate_hash :: "hasher \<Rightarrow> block \<Rightarrow> string" where
  "calculate_hash H b = H (index b) (transactions b) (timestamp b) (previous_hash b) (nonce b)"

text \<open>\<open>Block.__init__\<close>: the stored hash is computed from the other fields.\<close>

definition Block :: "hasher \<Rightarrow> nat \<Rightarrow> pydict list \<Rightarrow> real \<Rightarrow> string \<Rightarrow> nat \<Rightarrow> block" where
  "Block H i txs ts ph n =
     \<lparr>index = i, transactions = txs, timestamp = ts, previous_hash = ph, nonce = n,
      hash = H i txs ts ph n\<rparr>"

text \<open>The difficulty is a count of characters, hence a natural number.\<close>

record blockchain =
  chain :: "block list"
  difficulty :: nat
  pending_transactions :: "pydict list"
  mining_reward :: int

text \<open>\<open>Blockchain.__init__\<close> with \<open>create_genesis_block\<close>; \<open>now\<close> is \<open>time.time()\<close>.\<close>

definition create_genesis_block :: "hasher \<Rightarrow> real \<Rightarrow> blockchain \<Rightarrow> blockchain" where
  "create_genesis_block H now bc = bc\<lparr>chain := chain bc @ [Block H 0 [] now ''0'' 0]\<rparr>"

definition Blockchain :: "hasher \<Rightarrow> real \<Rightarrow> nat \<Rightarrow> blockchain" where
  "Blockchain H now d =
     create_genesis_block H now
       \<lparr>chain = [], difficulty = d, pending_transactions = [], mining_reward = 10\<rparr>"

text \<open>\<open>self.chain[-1]\<close> raises \<open>IndexError\<close> on an empty chain.\<close>

definition get_latest_block :: "blockchain \<Rightarrow> py_error + block" where
  "get_latest_block bc = (if chain bc = [] then Inl IndexError else Inr (last (chain bc)))"

text \<open>\<open>add_transaction\<close>: appends to the pending list, returns \<open>len(chain) + 1\<close>.\<close>

definition add_transaction ::
  "blockchain \<Rightarrow> string \<Rightarrow> string \<Rightarrow> pyval \<Rightarrow> pyval \<Rightarrow> real \<Rightarrow> nat \<times> blockchain" where
  "add_transaction bc sender recipient amount data now =
     (let transaction =
            [(''sender'', PStr sender),
             (''recipient'', PStr recipient),
             (''amount'', amount),
             (''data'', if truthy data then data else PDict []),
             (''timestamp'', PFloat now)]
      in (length (chain bc) + 1,
          bc\<lparr>pending_transactions := pending_transactions bc @ [transaction]\<rparr>))"

text \<open>
  \<open>mine_block\<close>: the proof-of-work search. The loop has no bound; a search that never
  meets the target is the value \<open>None\<close>.
\<close>

partial_function (option) mine_block :: "hasher \<Rightarrow> blockchain \<Rightarrow> block \<Rightarrow> block option" where
  "mine_block H bc b =
     (if take (difficulty bc) (hash b) \<noteq> replicate (difficulty bc) CHR ''0''
      then mine_block H bc
             (b\<lparr>nonce := nonce b + 1, hash := calculate_hash H (b\<lparr>nonce := nonce b + 1\<rparr>)\<rparr>)
      else Some b)"

text \<open>The reward transaction that replaces the pending list after a seal.\<close>

definition reward_transaction :: "blockchain \<Rightarrow> string \<Rightarrow> real \<Rightarrow> pydict" where
  "reward_transaction bc miner_address now =
     [(''sender'', PStr ''system''),
      (''recipient'', PStr miner_address),
      (''amount'', PInt (mining_reward bc)),
      (''data'', PDict []),
      (''timestamp'', PFloat now)]"

text \<open>
  \<open>mine_pending_transactions\<close>; \<open>t1\<close> and \<open>t2\<close> are its two readings of the clock. The
  outer \<open>option\<close> is \<open>None\<close> when the search never returns, the sum carries the
  \<open>IndexError\<close> of an empty chain.
\<close>

definition mine_pending_transactions ::
  "hasher \<Rightarrow> blockchain \<Rightarrow> string \<Rightarrow> real \<Rightarrow> real \<Rightarrow> (py_error + block \<times> blockchain) option" where
  "mine_pending_transactions H bc miner_address t1 t2 =
     (case get_latest_block bc of
        Inl e \<Rightarrow> Some (Inl e)
      | Inr tip \<Rightarrow>
          (case mine_block H bc
                  (Block H (length (chain bc)) (pending_transactions bc) t1 (hash tip) 0) of
             None \<Rightarrow> None
           | Some b \<Rightarrow>
               Some (Inr (b, bc\<lparr>chain := chain bc @ [b],
                                pending_transactions := [reward_transaction bc miner_address t2]\<rparr>))))"

text \<open>\<open>is_chain_valid\<close>: the loop over \<open>range(1, len(self.chain))\<close> with its two early
  returns.\<close>

fun is_chain_valid_loop :: "hasher \<Rightarrow> block list \<Rightarrow> nat list \<Rightarrow> bool" where
  "is_chain_valid_loop H c [] = True"
| "is_chain_valid_loop H c (i # rest) =
     (let current_block = c ! i; previous_block = c ! (i - 1)
      in if hash current_block \<noteq> calculate_hash H current_block then False
         else if previous_hash current_block \<noteq> hash previous_block then False
         else is_chain_valid_loop H c rest)"

definition is_chain_valid :: "hasher \<Rightarrow> blockchain \<Rightarrow> bool" where
  "is_chain_valid H bc = is_chain_valid_loop H (chain bc) [1..<length (chain bc)]"

section \<open>hyperledger_integrated_db.py\<close>

subsection \<open>Schemas\<close>

text \<open>\<open>DataField\<close> and \<open>DataModel\<close>. A field without default has \<open>default = None\<close>.\<close>

record data_field =
  field_name :: string
  field_type :: string
  required :: bool
  field_default :: pyval
  field_description :: string

record data_model =
  dm_name :: string
  dm_fields :: "data_field list"
  dm_description :: string
  dm_created_at :: real
  version :: string

subsection \<open>The tables and the state of the database object\<close>

text \<open>
  A row of \<open>data_records\<close> and a row of \<open>blockchain_transactions\<close>; a JSON text column
  holds the value it serialises, a nullable column is an \<open>option\<close>. A row of
  \<open>blockchain_blocks\<close> has the columns of a block. The tables are lists in insertion
  order, as the one connection of the object sees them.
\<close>

record data_record =
  rec_id :: string
  rec_model_name :: string
  rec_data :: pydict
  rec_created_at :: real
  rec_updated_at :: real
  blockchain_transaction_id :: "string option"
  blockchain_block_index :: "nat option"

record tx_row =
  tx_id :: string
  transaction_type :: string
  data_id :: pyval
  tx_model_name :: pyval
  transaction_data :: pydict
  tx_timestamp :: real
  block_index :: "nat option"

record hyperdb =
  blockchain :: blockchain
  data_models :: "(string \<times> data_model) list"
  data_records :: "data_record list"
  blockchain_transactions :: "tx_row list"
  blockchain_blocks :: "block list"

text \<open>\<open>__init__\<close> on a database file that does not exist yet: a chain with its genesis
  block, no model, empty tables.\<close>

definition new_db :: "hasher \<Rightarrow> real \<Rightarrow> nat \<Rightarrow> hyperdb" where
  "new_db H now blockchain_difficulty =
     \<lparr>blockchain = Blockchain H now blockchain_difficulty, data_models = [],
      data_records = [], blockchain_transactions = [], blockchain_blocks = []\<rparr>"

subsection \<open>Validation\<close>

text \<open>The chain of type tests of \<open>_validate_data\<close> for a value that is present.\<close>

definition type_check :: "data_field \<Rightarrow> pyval \<Rightarrow> py_error option" where
  "type_check field v =
     (if field_type field = ''text'' \<and> \<not> isinstance_str v
        then Some (TypeMismatch (field_name field))
      else if field_type field = ''integer'' \<and> \<not> isinstance_int v
        then Some (TypeMismatch (field_name field))
      else if field_type field = ''real'' \<and> \<not> (isinstance_int v \<or> isinstance_float v)
        then Some (TypeMismatch (field_name field))
      else if field_type field = ''boolean'' \<and> \<not> isinstance_bool v
        then Some (TypeMismatch (field_name field))
      else if field_type field = ''datetime''
        then (if \<not> (isinstance_int v \<or> isinstance_float v \<or> isinstance_str v)
              then Some (TypeMismatch (field_name field)) else None)
      else if field_type field = ''json'' \<and> \<not> (isinstance_dict v \<or> isinstance_list v)
        then Some (TypeMismatch (field_name field))
      else None)"

text \<open>
  One turn of the loop of \<open>_validate_data\<close>: the test for a missing required field, then
  the default, then the type test. The payload is mutated in place, so the result is the
  error raised, if any, together with the payload as the call leaves it.
\<close>

definition validate_field :: "data_field \<Rightarrow> pydict \<Rightarrow> py_error option \<times> pydict" where
  "validate_field field data =
     (if required field \<and> \<not> has_key data (field_name field)
        then (Some (MissingRequired (field_name field)), data)
      else
        let data1 =
              (if \<not> has_key data (field_name field) \<and> field_default field \<noteq> PNone
               then setitem data (field_name field) (field_default field) else data)
        in if has_key data1 (field_name field)
           then (type_check field (dict_get data1 (field_name field)), data1)
           else (None, data1))"

fun validate_fields :: "data_field list \<Rightarrow> pydict \<Rightarrow> py_error option \<times> pydict" where
  "validate_fields [] data = (None, data)"
| "validate_fields (field # rest) data =
     (case validate_field field data of
        (Some e, data1) \<Rightarrow> (Some e, data1)
      | (None, data1) \<Rightarrow> validate_fields rest data1)"

text \<open>\<open>_validate_data\<close>.\<close>

definition validate_data :: "pydict \<Rightarrow> data_model \<Rightarrow> py_error option \<times> pydict" where
  "validate_data data model = validate_fields (dm_fields model) data"

subsection \<open>Staging a transaction\<close>

text \<open>
  \<open>_add_to_blockchain\<close>. \<open>transaction_id\<close> is the fresh \<open>uuid4\<close>, \<open>current_time\<close> the
  clock, \<open>stage_time\<close> the clock read inside \<open>add_transaction\<close>. The insert into
  \<open>blockchain_transactions\<close> raises on a primary key that exists; the transaction is
  already in the pending list by then.
\<close>

definition add_to_blockchain ::
  "hyperdb \<Rightarrow> string \<Rightarrow> pydict \<Rightarrow> string \<Rightarrow> real \<Rightarrow> real \<Rightarrow> (py_error + string) \<times> hyperdb" where
  "add_to_blockchain st ttype data transaction_id current_time stage_time =
     (let transaction =
            [(''id'', PStr transaction_id),
             (''type'', PStr ttype),
             (''data'', PDict data),
             (''timestamp'', PFloat current_time),
             (''sender'', PStr ''system''),
             (''recipient'', PStr ''system''),
             (''amount'', PFloat 0)];
          st1 = st\<lparr>blockchain :=
                  snd (add_transaction (blockchain st) ''system'' ''system'' (PFloat 0)
                         (PDict transaction) stage_time)\<rparr>
      in if transaction_id \<in> set (map tx_id (blockchain_transactions st1))
         then (Inl IntegrityError, st1)
         else (Inr transaction_id,
               st1\<lparr>blockchain_transactions := blockchain_transactions st1 @
                     [\<lparr>tx_id = transaction_id, transaction_type = ttype,
                       data_id = dict_get data ''record_id'',
                       tx_model_name = dict_get data ''model_name'',
                       transaction_data = transaction, tx_timestamp = current_time,
                       block_index = None\<rparr>]\<rparr>))"

subsection \<open>Creating a model\<close>

text \<open>
  A field dictionary as \<open>create_data_model\<close> receives it, with values of the types
  \<open>DataField\<close> declares. An absent key is \<open>None\<close>; for \<open>default\<close>, read with \<open>.get\<close>, an
  absent key and the value \<open>None\<close> are the same.
\<close>

record field_spec =
  spec_name :: "string option"
  spec_type :: "string option"
  spec_required :: "bool option"
  spec_default :: pyval
  spec_description :: "string option"

text \<open>The loop that builds the \<open>DataField\<close> objects: \<open>field_data['name']\<close> and
  \<open>field_data['type']\<close> raise \<open>KeyError\<close> on an absent key.\<close>

fun data_fields_of :: "field_spec list \<Rightarrow> py_error + data_field list" where
  "data_fields_of [] = Inr []"
| "data_fields_of (field_data # rest) =
     (case spec_name field_data of
        None \<Rightarrow> Inl (KeyError ''name'')
      | Some n \<Rightarrow>
          (case spec_type field_data of
             None \<Rightarrow> Inl (KeyError ''type'')
           | Some t \<Rightarrow>
               (case data_fields_of rest of
                  Inl e \<Rightarrow> Inl e
                | Inr data_fields \<Rightarrow>
                    Inr (\<lparr>field_name = n, field_type = t,
                          required = (case spec_required field_data of
                                        None \<Rightarrow> True | Some r \<Rightarrow> r),
                          field_default = spec_default field_data,
                          field_description = (case spec_description field_data of
                                                 None \<Rightarrow> [] | Some d \<Rightarrow> d)\<rparr>
                         # data_fields))))"

text \<open>\<open>asdict\<close> of a \<open>DataField\<close> and \<open>DataModel.to_dict\<close>.\<close>

definition asdict :: "data_field \<Rightarrow> pydict" where
  "asdict field =
     [(''name'', PStr (field_name field)),
      (''type'', PStr (field_type field)),
      (''required'', PBool (required field)),
      (''default'', field_default field),
      (''description'', PStr (field_description field))]"

definition to_dict :: "data_model \<Rightarrow> pydict" where
  "to_dict model =
     [(''name'', PStr (dm_name model)),
      (''fields'', PList (map (\<lambda>field. PDict (asdict field)) (dm_fields model))),
      (''description'', PStr (dm_description model)),
      (''created_at'', PFloat (dm_created_at model)),
      (''version'', PStr (version model))]"

text \<open>
  The body of the \<open>try\<close> of \<open>create_data_model\<close>. \<open>now\<close> is the clock read by
  \<open>DataModel.__post_init__\<close>. The table \<open>data_models\<close> and the dictionary
  \<open>self.data_models\<close> hold the same models (the dictionary is loaded from the table and
  every insert goes to both), so one component of the state stands for both: the insert
  raises on a name that is already there, and the assignment follows.
\<close>

definition create_data_model_try ::
  "hyperdb \<Rightarrow> string \<Rightarrow> field_spec list \<Rightarrow> string \<Rightarrow> real \<Rightarrow> string \<Rightarrow> real \<Rightarrow> real
     \<Rightarrow> (py_error + bool) \<times> hyperdb" where
  "create_data_model_try st name field_list description now transaction_id tx_time stage_time =
     (case data_fields_of field_list of
        Inl e \<Rightarrow> (Inl e, st)
      | Inr data_fields \<Rightarrow>
          let data_model = \<lparr>dm_name = name, dm_fields = data_fields,
                             dm_description = description, dm_created_at = now,
                             version = ''1.0''\<rparr>
          in if name \<in> set (map fst (data_models st))
             then (Inl IntegrityError, st)
             else
               let st1 = st\<lparr>data_models := setitem (data_models st) name data_model\<rparr>
               in (case add_to_blockchain st1 ''model_creation''
                          [(''model_name'', PStr name),
                           (''schema'', PDict (to_dict data_model)),
                           (''description'', PStr description)]
                          transaction_id tx_time stage_time of
                     (Inl e, st2) \<Rightarrow> (Inl e, st2)
                   | (Inr tid, st2) \<Rightarrow> (Inr True, st2)))"

text \<open>\<open>create_data_model\<close>: the \<open>except\<close> turns every error into \<open>False\<close>.\<close>

definition create_data_model ::
  "hyperdb \<Rightarrow> string \<Rightarrow> field_spec list \<Rightarrow> string \<Rightarrow> real \<Rightarrow> string \<Rightarrow> real \<Rightarrow> real
     \<Rightarrow> bool \<times> hyperdb" where
  "create_data_model st name field_list description now transaction_id tx_time stage_time =
     (case create_data_model_try st name field_list description now transaction_id tx_time
             stage_time of
        (Inl e, st1) \<Rightarrow> (False, st1)
      | (Inr ok, st1) \<Rightarrow> (ok, st1))"

subsection \<open>Adding and updating records\<close>

text \<open>
  The body of the \<open>try\<close> of \<open>add_data\<close>: the error raised or the new id, and the state at
  that point. \<open>record_id\<close> is the fresh \<open>uuid4\<close>.
\<close>

definition add_data_try ::
  "hyperdb \<Rightarrow> string \<Rightarrow> pydict \<Rightarrow> string \<Rightarrow> real \<Rightarrow> string \<Rightarrow> real \<Rightarrow> real
     \<Rightarrow> (py_error + string) \<times> hyperdb" where
  "add_data_try st model_name data record_id current_time transaction_id tx_time stage_time =
     (case map_of (data_models st) model_name of
        None \<Rightarrow> (Inl (UnknownModel model_name), st)
      | Some model \<Rightarrow>
          (case validate_data data model of
             (Some e, data1) \<Rightarrow> (Inl e, st)
           | (None, data1) \<Rightarrow>
               if record_id \<in> set (map rec_id (data_records st))
               then (Inl IntegrityError, st)
               else
                 let st1 = st\<lparr>data_records := data_records st @
                             [\<lparr>rec_id = record_id, rec_model_name = model_name,
                               rec_data = data1, rec_created_at = current_time,
                               rec_updated_at = current_time,
                               blockchain_transaction_id = None,
                               blockchain_block_index = None\<rparr>]\<rparr>
                 in (case add_to_blockchain st1 ''data_creation''
                            [(''record_id'', PStr record_id),
                             (''model_name'', PStr model_name),
                             (''data'', PDict data1),
                             (''created_at'', PFloat current_time)]
                            transaction_id tx_time stage_time of
                       (Inl e, st2) \<Rightarrow> (Inl e, st2)
                     | (Inr tid, st2) \<Rightarrow>
                         (Inr record_id,
                          st2\<lparr>data_records :=
                                map (\<lambda>r. if rec_id r = record_id
                                          then r\<lparr>blockchain_transaction_id := Some tid\<rparr>
                                          else r)
                                    (data_records st2)\<rparr>))))"

text \<open>\<open>add_data\<close>: the \<open>except\<close> turns every error into \<open>None\<close>.\<close>

definition add_data ::
  "hyperdb \<Rightarrow> string \<Rightarrow> pydict \<Rightarrow> string \<Rightarrow> real \<Rightarrow> string \<Rightarrow> real \<Rightarrow> real
     \<Rightarrow> string option \<times> hyperdb" where
  "add_data st model_name data record_id current_time transaction_id tx_time stage_time =
     (case add_data_try st model_name data record_id current_time transaction_id tx_time
             stage_time of
        (Inl e, st1) \<Rightarrow> (None, st1)
      | (Inr rid, st1) \<Rightarrow> (Some rid, st1))"

text \<open>The body of the \<open>try\<close> of \<open>update_data\<close>; \<open>fetchone\<close> is the first row with the id.\<close>

definition update_data_try ::
  "hyperdb \<Rightarrow> string \<Rightarrow> pydict \<Rightarrow> real \<Rightarrow> string \<Rightarrow> real \<Rightarrow> real
     \<Rightarrow> (py_error + bool) \<times> hyperdb" where
  "update_data_try st record_id data current_time transaction_id tx_time stage_time =
     (case find (\<lambda>r. rec_id r = record_id) (data_records st) of
        None \<Rightarrow> (Inl (UnknownRecordId record_id), st)
      | Some row \<Rightarrow>
          let current_data = rec_data row; model_name = rec_model_name row
          in (case (case map_of (data_models st) model_name of
                      None \<Rightarrow> (None, data)
                    | Some model \<Rightarrow> validate_data data model) of
                (Some e, data1) \<Rightarrow> (Inl e, st)
              | (None, data1) \<Rightarrow>
                  let st1 = st\<lparr>data_records :=
                              map (\<lambda>r. if rec_id r = record_id
                                        then r\<lparr>rec_data := data1, rec_updated_at := current_time\<rparr>
                                        else r)
                                  (data_records st)\<rparr>
                  in (case add_to_blockchain st1 ''data_update''
                             [(''record_id'', PStr record_id),
                              (''model_name'', PStr model_name),
                              (''previous_data'', PDict current_data),
                              (''new_data'', PDict data1),
                              (''updated_at'', PFloat current_time)]
                             transaction_id tx_time stage_time of
                        (Inl e, st2) \<Rightarrow> (Inl e, st2)
                      | (Inr tid, st2) \<Rightarrow> (Inr True, st2))))"

definition update_data ::
  "hyperdb \<Rightarrow> string \<Rightarrow> pydict \<Rightarrow> real \<Rightarrow> string \<Rightarrow> real \<Rightarrow> real \<Rightarrow> bool \<times> hyperdb" where
  "update_data st record_id data current_time transaction_id tx_time stage_time =
     (case update_data_try st record_id data current_time transaction_id tx_time stage_time of
        (Inl e, st1) \<Rightarrow> (False, st1)
      | (Inr ok, st1) \<Rightarrow> (ok, st1))"

subsection \<open>Mining\<close>

text \<open>The summary \<open>mine_block\<close> returns.\<close>

record block_info =
  info_index :: nat
  info_hash :: string
  info_timestamp :: real
  transaction_count :: nat

text \<open>
  The two statements \<open>UPDATE ... WHERE id = ?\<close> of \<open>mine_block\<close> bind a Python value to
  the placeholder and compare it with a column of type \<open>TEXT\<close>. What \<open>sqlite3\<close> and SQLite
  make of the value is the library's: a value that cannot be bound (a list, a dictionary)
  raises; a string is compared as it is; a number is compared as the text SQLite converts
  it to under the \<open>TEXT\<close> affinity of the column; \<open>None\<close> is \<open>NULL\<close>, equal to no id. This
  is the parameter \<open>B\<close> of the functions that reach these statements: the error
  raised, or the text the ids are compared with (\<open>None\<close> for \<open>NULL\<close>).
\<close>

type_synonym sql_binding = "pyval \<Rightarrow> py_error + string option"

text \<open>
  The loop of \<open>mine_block\<close> over the transactions of the sealed block. An \<open>UPDATE\<close>
  touches the rows whose id is the text of the value bound. A \<open>data\<close> entry that is no
  dictionary has no \<open>get\<close>: \<open>AttributeError\<close>. The result is the error that ends the loop,
  if any, and the tables at that point.
\<close>

fun backfill ::
  "sql_binding \<Rightarrow> nat \<Rightarrow> pydict list \<Rightarrow> hyperdb \<Rightarrow> py_error option \<times> hyperdb" where
  "backfill B bi [] st = (None, st)"
| "backfill B bi (transaction # rest) st =
     (if truthy (dict_get transaction ''id'') then
        (case B (dict_get transaction ''id'') of
           Inl e \<Rightarrow> (Some e, st)
         | Inr key \<Rightarrow>
             let st1 = st\<lparr>blockchain_transactions :=
                         map (\<lambda>r. if Some (tx_id r) = key
                                   then r\<lparr>block_index := Some bi\<rparr> else r)
                             (blockchain_transactions st)\<rparr>
             in (case (if has_key transaction ''data'' then dict_get transaction ''data''
                       else PDict []) of
                   PDict d \<Rightarrow>
                     if truthy (dict_get d ''record_id'') then
                       (case B (dict_get d ''record_id'') of
                          Inl e \<Rightarrow> (Some e, st1)
                        | Inr record_key \<Rightarrow>
                            backfill B bi rest
                              (st1\<lparr>data_records :=
                                     map (\<lambda>r. if Some (rec_id r) = record_key
                                               then r\<lparr>blockchain_block_index := Some bi\<rparr>
                                               else r)
                                         (data_records st1)\<rparr>))
                     else backfill B bi rest st1
                 | _ \<Rightarrow> (Some AttributeError, st1)))
      else backfill B bi rest st)"

text \<open>
  The body of the \<open>try\<close> of \<open>HyperledgerIntegratedDB.mine_block\<close>. \<open>None\<close> is a search
  that never returns. The insert into \<open>blockchain_blocks\<close> raises on a block index
  that is already stored, after the chain in memory has grown.
\<close>

definition db_mine_block_try ::
  "hasher \<Rightarrow> sql_binding \<Rightarrow> hyperdb \<Rightarrow> real \<Rightarrow> real
     \<Rightarrow> ((py_error + block_info option) \<times> hyperdb) option" where
  "db_mine_block_try H B st t1 t2 =
     (if pending_transactions (blockchain st) = [] then Some (Inr None, st)
      else
        (case mine_pending_transactions H (blockchain st) ''system'' t1 t2 of
           None \<Rightarrow> None
         | Some (Inl e) \<Rightarrow> Some (Inl e, st)
         | Some (Inr (b, bc1)) \<Rightarrow>
             let st1 = st\<lparr>blockchain := bc1\<rparr>
             in if index b \<in> set (map index (blockchain_blocks st1))
                then Some (Inl IntegrityError, st1)
                else
                  let st2 = st1\<lparr>blockchain_blocks := blockchain_blocks st1 @ [b]\<rparr>
                  in (case backfill B (index b) (transactions b) st2 of
                        (Some e, st3) \<Rightarrow> Some (Inl e, st3)
                      | (None, st3) \<Rightarrow>
                          Some (Inr (Some \<lparr>info_index = index b, info_hash = hash b,
                                           info_timestamp = timestamp b,
                                           transaction_count = length (transactions b)\<rparr>),
                                st3))))"

text \<open>\<open>HyperledgerIntegratedDB.mine_block\<close>: \<open>None\<close> for no pending transaction and
  for every error.\<close>

definition db_mine_block ::
  "hasher \<Rightarrow> sql_binding \<Rightarrow> hyperdb \<Rightarrow> real \<Rightarrow> real \<Rightarrow> (block_info option \<times> hyperdb) option" where
  "db_mine_block H B st t1 t2 =
     (case db_mine_block_try H B st t1 t2 of
        None \<Rightarrow> None
      | Some (Inl e, st1) \<Rightarrow> Some (None, st1)
      | Some (Inr r, st1) \<Rightarrow> Some (r, st1))"

subsection \<open>Reading and searching\<close>

text \<open>\<open>get_data\<close> and \<open>get_all_data\<close>. \<open>ORDER BY created_at\<close> is a stable sort of the
  rows; \<open>if model_name:\<close> is false for \<open>None\<close> and for the empty string.\<close>

definition get_data :: "hyperdb \<Rightarrow> string \<Rightarrow> data_record option" where
  "get_data st record_id = find (\<lambda>r. rec_id r = record_id) (data_records st)"

definition get_all_data :: "hyperdb \<Rightarrow> string option \<Rightarrow> data_record list" where
  "get_all_data st model_name =
     (case model_name of
        None \<Rightarrow> sort_key rec_created_at (data_records st)
      | Some m \<Rightarrow>
          if m \<noteq> []
          then sort_key rec_created_at (filter (\<lambda>r. rec_model_name r = m) (data_records st))
          else sort_key rec_created_at (data_records st))"

text \<open>The string of a \<open>str\<close> value.\<close>

fun str_of :: "pyval \<Rightarrow> string" where
  "str_of (PStr s) = s"
| "str_of v = []"

text \<open>The inner loop of \<open>search_data\<close> over \<open>criteria.items()\<close>, with its three
  \<open>break\<close>s: the value of \<open>match\<close> when the loop ends. \<open>lower\<close> is \<open>str.lower()\<close>.\<close>

fun criteria_loop :: "lowering \<Rightarrow> pydict \<Rightarrow> pydict \<Rightarrow> bool" where
  "criteria_loop lower record_data [] = True"
| "criteria_loop lower record_data ((key, v) # rest) =
     (if \<not> has_key record_data key then False
      else if isinstance_str v \<and> isinstance_str (dict_get record_data key) then
        (if \<not> str_in (lower (str_of v)) (lower (str_of (dict_get record_data key)))
         then False
         else criteria_loop lower record_data rest)
      else if \<not> py_eq (dict_get record_data key) v then False
      else criteria_loop lower record_data rest)"

text \<open>The outer loop over the records.\<close>

fun search_loop :: "lowering \<Rightarrow> data_record list \<Rightarrow> pydict \<Rightarrow> data_record list" where
  "search_loop lower [] criteria = []"
| "search_loop lower (r # rest) criteria =
     (if criteria_loop lower (rec_data r) criteria then r # search_loop lower rest criteria
      else search_loop lower rest criteria)"

text \<open>\<open>search_data\<close>; \<open>if not criteria\<close> holds for \<open>None\<close> and for the empty
  dictionary.\<close>

definition search_data ::
  "lowering \<Rightarrow> hyperdb \<Rightarrow> string option \<Rightarrow> pydict option \<Rightarrow> data_record list" where
  "search_data lower st model_name criteria =
     (let all_data = get_all_data st model_name
      in case criteria of
           None \<Rightarrow> all_data
         | Some c \<Rightarrow> if c = [] then all_data else search_loop lower all_data c)"

subsection \<open>Sequences of calls\<close>

text \<open>
  The calls by which a client changes the state of the record store: the four methods of
  \<open>HyperledgerIntegratedDB\<close> that write, and the two methods of its attribute
  \<open>blockchain\<close> that write. Each call carries its arguments followed by the readings of
  the clock and the \<open>uuid4\<close> values it draws. The other methods only read.
\<close>

datatype call =
    Create_data_model string "field_spec list" string real string real real
  | Add_data string pydict string real string real real
  | Update_data string pydict real string real real
  | Mine_block real real
  | Add_transaction string string pyval pyval real
  | Mine_pending_transactions string real real

text \<open>The state after one call; \<open>None\<close> when the call never returns. The \<open>IndexError\<close>
  that \<open>mine_pending_transactions\<close> raises to the client leaves the state as it was.\<close>

fun do_call :: "hasher \<Rightarrow> sql_binding \<Rightarrow> hyperdb \<Rightarrow> call \<Rightarrow> hyperdb option" where
  "do_call H B st (Create_data_model name field_list description now transaction_id tx_time
      stage_time) =
     Some (snd (create_data_model st name field_list description now transaction_id tx_time
                  stage_time))"
| "do_call H B st (Add_data model_name data record_id current_time transaction_id tx_time
      stage_time) =
     Some (snd (add_data st model_name data record_id current_time transaction_id tx_time
                  stage_time))"
| "do_call H B st (Update_data record_id data current_time transaction_id tx_time
      stage_time) =
     Some (snd (update_data st record_id data current_time transaction_id tx_time stage_time))"
| "do_call H B st (Mine_block t1 t2) = map_option snd (db_mine_block H B st t1 t2)"
| "do_call H B st (Add_transaction sender recipient amount data now) =
     Some (st\<lparr>blockchain :=
                snd (add_transaction (blockchain st) sender recipient amount data now)\<rparr>)"
| "do_call H B st (Mine_pending_transactions miner_address t1 t2) =
     (case mine_pending_transactions H (blockchain st) miner_address t1 t2 of
        None \<Rightarrow> None
      | Some (Inl e) \<Rightarrow> Some st
      | Some (Inr (b, bc1)) \<Rightarrow> Some (st\<lparr>blockchain := bc1\<rparr>))"

text \<open>The state after a sequence of calls.\<close>

fun do_calls :: "hasher \<Rightarrow> sql_binding \<Rightarrow> hyperdb \<Rightarrow> call list \<Rightarrow> hyperdb option" where
  "do_calls H B st [] = Some st"
| "do_calls H B st (c # cs) =
     (case do_call H B st c of
        None \<Rightarrow> None
      | Some st1 \<Rightarrow> do_calls H B st1 cs)"

section \<open>The proof-of-work search\<close>

text \<open>Difficulty 0: the target is the empty string and the loop body never runs.\<close>

lemma mine_block_zero: "difficulty bc = 0 \<Longrightarrow> mine_block H bc b = Some b"
  by (subst mine_block.simps) simp

text \<open>What a search that returns has done: the prefix of the hash is the target, only
  the nonce and the hash have changed.\<close>

lemma mine_block_Some:
  assumes "mine_block H bc b = Some b'"
  shows "take (difficulty bc) (hash b') = replicate (difficulty bc) CHR ''0'' \<and>
         index b' = index b \<and> transactions b' = transactions b \<and>
         timestamp b' = timestamp b \<and> previous_hash b' = previous_hash b \<and>
         nonce b \<le> nonce b'"
proof (rule mine_block.raw_induct
    [where P = "\<lambda>H bc b b'.
         take (difficulty bc) (hash b') = replicate (difficulty bc) CHR ''0'' \<and>
         index b' = index b \<and> transactions b' = transactions b \<and>
         timestamp b' = timestamp b \<and> previous_hash b' = previous_hash b \<and>
         nonce b \<le> nonce b'", OF _ assms])
  fix mb :: "hasher \<Rightarrow> blockchain \<Rightarrow> block \<Rightarrow> block option" and H bc b b'
  assume IH: "\<And>H bc b y. mb H bc b = Some y \<Longrightarrow>
         take (difficulty bc) (hash y) = replicate (difficulty bc) CHR ''0'' \<and>
         index y = index b \<and> transactions y = transactions b \<and>
         timestamp y = timestamp b \<and> previous_hash y = previous_hash b \<and>
         nonce b \<le> nonce y"
    and step: "(if take (difficulty bc) (hash b) \<noteq> replicate (difficulty bc) CHR ''0''
      then mb H bc
             (b\<lparr>nonce := nonce b + 1, hash := calculate_hash H (b\<lparr>nonce := nonce b + 1\<rparr>)\<rparr>)
      else Some b) = Some b'"
  show "take (difficulty bc) (hash b') = replicate (difficulty bc) CHR ''0'' \<and>
         index b' = index b \<and> transactions b' = transactions b \<and>
         timestamp b' = timestamp b \<and> previous_hash b' = previous_hash b \<and>
         nonce b \<le> nonce b'"
  proof (cases "take (difficulty bc) (hash b) \<noteq> replicate (difficulty bc) CHR ''0''")
    case True
    with step have "mb H bc
        (b\<lparr>nonce := nonce b + 1, hash := calculate_hash H (b\<lparr>nonce := nonce b + 1\<rparr>)\<rparr>)
        = Some b'"
      by simp
    from IH[OF this] show ?thesis by simp
  next
    case False
    with step show ?thesis by simp
  qed
qed

text \<open>The search returns as soon as some later nonce gives a hash that meets the target.\<close>

lemma mine_block_finds:
  assumes "take (difficulty bc)
             (H (index b) (transactions b) (timestamp b) (previous_hash b) (nonce b + k))
           = replicate (difficulty bc) CHR ''0''"
    and "hash b = calculate_hash H b"
  shows "\<exists>b'. mine_block H bc b = Some b'"
  using assms
proof (induction k arbitrary: b)
  case 0
  then show ?case by (subst mine_block.simps) (simp add: calculate_hash_def)
next
  case (Suc k)
  let ?b = "b\<lparr>nonce := nonce b + 1, hash := calculate_hash H (b\<lparr>nonce := nonce b + 1\<rparr>)\<rparr>"
  have "\<exists>b'. mine_block H bc ?b = Some b'"
    by (rule Suc.IH) (use Suc.prems in \<open>simp_all add: calculate_hash_def\<close>)
  then show ?case by (subst mine_block.simps) auto
qed

section \<open>Chain verification\<close>

lemma is_chain_valid_loop_iff:
  "is_chain_valid_loop H c idxs \<longleftrightarrow>
     (\<forall>i\<in>set idxs. hash (c ! i) = calculate_hash H (c ! i) \<and>
                     previous_hash (c ! i) = hash (c ! (i - 1)))"
  by (induction idxs) (auto simp: Let_def)

text \<open>
  C2, as the code has it: \<open>is_chain_valid\<close> is true exactly when every block from index 1
  on stores the hash recomputed from its fields and points to the stored hash of its
  predecessor. The block at index 0 is never examined.
\<close>

theorem C2_is_chain_valid_from_index_one:
  "is_chain_valid H bc \<longleftrightarrow>
     (\<forall>i. 1 \<le> i \<and> i < length (chain bc) \<longrightarrow>
        hash (chain bc ! i) = calculate_hash H (chain bc ! i) \<and>
        previous_hash (chain bc ! i) = hash (chain bc ! (i - 1)))"
  unfolding is_chain_valid_def is_chain_valid_loop_iff by auto

text \<open>The theorem at a chain of two blocks built by the constructor, the second pointing
  to the first.\<close>

theorem C2_is_chain_valid_witness:
  "is_chain_valid (\<lambda>i txs ts ph n. if i = 0 then ''aa'' else ''bb'')
     \<lparr>chain = [Block (\<lambda>i txs ts ph n. if i = 0 then ''aa'' else ''bb'') 0 [] 0 ''0'' 0,
               Block (\<lambda>i txs ts ph n. if i = 0 then ''aa'' else ''bb'') 1 [] 1 ''aa'' 0],
      difficulty = 0, pending_transactions = [], mining_reward = 10\<rparr>"
  using C2_is_chain_valid_from_index_one
    [of "\<lambda>i txs ts ph n. if i = 0 then ''aa'' else ''bb''"
     "\<lparr>chain = [Block (\<lambda>i txs ts ph n. if i = 0 then ''aa'' else ''bb'') 0 [] 0 ''0'' 0,
               Block (\<lambda>i txs ts ph n. if i = 0 then ''aa'' else ''bb'') 1 [] 1 ''aa'' 0],
      difficulty = 0, pending_transactions = [], mining_reward = 10\<rparr>"]
  by (simp add: is_chain_valid_def Block_def calculate_hash_def upt_rec)

text \<open>
  C2 as stated fails at index 0: a chain of one block whose stored hash is not the hash
  of its fields is reported valid.
\<close>

theorem C2_genesis_not_checked:
  "is_chain_valid (\<lambda>i txs ts ph n. ''5feceb66'')
     \<lparr>chain = [\<lparr>index = 0, transactions = [], timestamp = 0, previous_hash = ''0'',
                nonce = 0, hash = ''tampered''\<rparr>],
      difficulty = 2, pending_transactions = [], mining_reward = 10\<rparr>
   \<and> hash \<lparr>index = 0, transactions = [], timestamp = 0, previous_hash = ''0'',
            nonce = 0, hash = ''tampered''\<rparr>
     \<noteq> calculate_hash (\<lambda>i txs ts ph n. ''5feceb66'')
         \<lparr>index = 0, transactions = [], timestamp = 0, previous_hash = ''0'',
          nonce = 0, hash = ''tampered''\<rparr>"
  by (simp add: is_chain_valid_def calculate_hash_def)

section \<open>Sealing a block\<close>

text \<open>The number of leading \<open>'0'\<close> characters of a hash, in the words of the specification.\<close>

definition leading_zeros :: "string \<Rightarrow> nat" where
  "leading_zeros s = length (takeWhile (\<lambda>c. c = CHR ''0'') s)"

text \<open>The loop test \<open>hash[:d] == "0" * d\<close> says that there are at least \<open>d\<close> of them.\<close>

lemma take_replicate_leading:
  "take d s = replicate d CHR ''0'' \<longleftrightarrow> d \<le> leading_zeros s"
  unfolding leading_zeros_def
proof (induction s arbitrary: d)
  case Nil
  then show ?case by (cases d) auto
next
  case (Cons a s)
  then show ?case by (cases d) auto
qed

lemma mine_pending_transactions_Some:
  assumes "mine_pending_transactions H bc miner t1 t2 = Some (Inr (b, bc'))"
  shows "chain bc \<noteq> [] \<and>
         mine_block H bc (Block H (length (chain bc)) (pending_transactions bc) t1
                            (hash (last (chain bc))) 0) = Some b \<and>
         bc' = bc\<lparr>chain := chain bc @ [b],
                  pending_transactions := [reward_transaction bc miner t2]\<rparr>"
  using assms
  by (auto simp: mine_pending_transactions_def get_latest_block_def
           split: if_splits option.splits)

text \<open>
  C3, as the code has it: the hash of a block returned by \<open>mine_pending_transactions\<close>
  at difficulty \<open>d\<close> starts with \<open>d\<close> characters \<open>'0'\<close>, that is, it has at least \<open>d\<close>
  leading zeros; and at difficulty 0, on a chain that has its genesis block, the seal
  returns with nonce 0.
\<close>

theorem C3_seal_hash_prefix:
  "(mine_pending_transactions H bc miner t1 t2 = Some (Inr (b, bc')) \<longrightarrow>
      take (difficulty bc) (hash b) = replicate (difficulty bc) CHR ''0'' \<and>
      difficulty bc \<le> leading_zeros (hash b)) \<and>
   (difficulty bc = 0 \<and> chain bc \<noteq> [] \<longrightarrow>
      (\<exists>b1 bc1. mine_pending_transactions H bc miner t1 t2 = Some (Inr (b1, bc1)) \<and>
                nonce b1 = 0))"
proof (intro conjI impI)
  assume ok: "mine_pending_transactions H bc miner t1 t2 = Some (Inr (b, bc'))"
  from mine_pending_transactions_Some[OF ok]
  have "mine_block H bc (Block H (length (chain bc)) (pending_transactions bc) t1
                            (hash (last (chain bc))) 0) = Some b" by simp
  from mine_block_Some[OF this]
  show "take (difficulty bc) (hash b) = replicate (difficulty bc) CHR ''0''" by simp
  then show "difficulty bc \<le> leading_zeros (hash b)"
    by (simp add: take_replicate_leading)
next
  assume "difficulty bc = 0 \<and> chain bc \<noteq> []"
  then show "\<exists>b1 bc1. mine_pending_transactions H bc miner t1 t2 = Some (Inr (b1, bc1)) \<and>
                nonce b1 = 0"
    by (simp add: mine_pending_transactions_def get_latest_block_def mine_block_zero Block_def)
qed

text \<open>
  C3 as stated ("exactly \<open>d\<close>") fails: the loop compares a prefix only, so at difficulty 1
  a digest with two leading zeros ends the search. Here the digests of nonce 0 and 1 miss
  the target and the digest of nonce 2 starts with two zeros: the seal returns a block at
  difficulty 1 with 2 leading zeros and nonce 2.
\<close>

theorem C3_more_than_d_zeros:
  "map_option (map_sum id (\<lambda>(b, bc). (difficulty bc, leading_zeros (hash b), nonce b)))
     (mine_pending_transactions (\<lambda>i txs ts ph n. if n < 2 then ''a3f1'' else ''00c7'')
        (Blockchain (\<lambda>i txs ts ph n. if n < 2 then ''a3f1'' else ''00c7'') 0 1)
        ''miner'' 1 2)
   = Some (Inr (1, 2, 2))"
  by (simp add: mine_pending_transactions_def get_latest_block_def Blockchain_def
      create_genesis_block_def Block_def mine_block.simps calculate_hash_def leading_zeros_def)


text \<open>The theorem at difficulty 1 after two failed nonces, and at difficulty 0.\<close>

theorem C3_seal_hash_prefix_witness:
  "mine_pending_transactions (\<lambda>i txs ts ph n. if n < 2 then ''a3f1'' else ''00c7'')
        (Blockchain (\<lambda>i txs ts ph n. if n < 2 then ''a3f1'' else ''00c7'') 0 1)
        ''miner'' 1 2 =
     Some (Inr (\<lparr>index = 1, transactions = [], timestamp = 1, previous_hash = ''a3f1'',
                  nonce = 2, hash = ''00c7''\<rparr>,
                (Blockchain (\<lambda>i txs ts ph n. if n < 2 then ''a3f1'' else ''00c7'') 0 1)
                  \<lparr>chain := chain (Blockchain (\<lambda>i txs ts ph n. if n < 2 then ''a3f1'' else ''00c7'') 0 1)
                     @ [\<lparr>index = 1, transactions = [], timestamp = 1, previous_hash = ''a3f1'',
                         nonce = 2, hash = ''00c7''\<rparr>],
                    pending_transactions :=
                      [reward_transaction (Blockchain (\<lambda>i txs ts ph n. if n < 2 then ''a3f1'' else ''00c7'') 0 1)
                         ''miner'' 2]\<rparr>))
   \<and> take 1 ''00c7'' = replicate 1 CHR ''0''
   \<and> (1::nat) \<le> leading_zeros ''00c7''
   \<and> (\<exists>b1 bc1. mine_pending_transactions (\<lambda>i txs ts ph n. ''a3f1'')
                  (Blockchain (\<lambda>i txs ts ph n. ''a3f1'') 0 0) ''miner'' 1 2
                = Some (Inr (b1, bc1)) \<and> nonce b1 = 0)"
proof -
  let ?H = "\<lambda>(i::nat) (txs::pydict list) (ts::real) (ph::string) (n::nat). if n < 2 then ''a3f1'' else ''00c7''"
  let ?b = "\<lparr>index = 1, transactions = [], timestamp = 1, previous_hash = ''a3f1'',
             nonce = 2, hash = ''00c7''\<rparr>"
  let ?bc' = "(Blockchain ?H 0 1)
                  \<lparr>chain := chain (Blockchain ?H 0 1) @ [?b],
                    pending_transactions := [reward_transaction (Blockchain ?H 0 1) ''miner'' 2]\<rparr>"
  have run: "mine_pending_transactions ?H (Blockchain ?H 0 1) ''miner'' 1 2 = Some (Inr (?b, ?bc'))"
    by (simp add: mine_pending_transactions_def get_latest_block_def Blockchain_def
      create_genesis_block_def Block_def mine_block.simps calculate_hash_def)
  have d0: "difficulty (Blockchain (\<lambda>i txs ts ph n. ''a3f1'') 0 0) = 0 \<and>
            chain (Blockchain (\<lambda>i txs ts ph n. ''a3f1'') 0 0) \<noteq> []"
    by (simp add: Blockchain_def create_genesis_block_def)
  have d1: "difficulty (Blockchain ?H 0 1) = 1"
    by (simp add: Blockchain_def create_genesis_block_def)
  show ?thesis
    using run d0 d1
      C3_seal_hash_prefix [of ?H "Blockchain ?H 0 1" "''miner''" 1 2 ?b ?bc']
      C3_seal_hash_prefix [of "\<lambda>i txs ts ph n. ''a3f1''" "Blockchain (\<lambda>i txs ts ph n. ''a3f1'') 0 0"
                 "''miner''" 1 2]
    by simp
qed

text \<open>
  C6: on a chain with its genesis block, when some nonce \<open>n\<close> gives the candidate block a
  hash meeting the target, \<open>mine_pending_transactions\<close> returns; the block has index
  \<open>len(chain)\<close>, holds exactly the pending transactions and points to the hash of the
  previous tip; the chain grows by this one block; the pending list is then exactly the
  reward transaction from \<open>"system"\<close> to the miner with amount \<open>mining_reward\<close>.
\<close>

theorem C6_seal_appends_block:
  assumes "chain bc \<noteq> []"
    and "take (difficulty bc)
           (H (length (chain bc)) (pending_transactions bc) t1 (hash (last (chain bc))) n)
         = replicate (difficulty bc) CHR ''0''"
  shows "\<exists>b bc'. mine_pending_transactions H bc miner_id t1 t2 = Some (Inr (b, bc')) \<and>
           index b = length (chain bc) \<and>
           transactions b = pending_transactions bc \<and>
           previous_hash b = hash (last (chain bc)) \<and>
           chain bc' = chain bc @ [b] \<and>
           length (chain bc') = length (chain bc) + 1 \<and>
           pending_transactions bc' =
             [[(''sender'', PStr ''system''), (''recipient'', PStr miner_id),
               (''amount'', PInt (mining_reward bc)), (''data'', PDict []),
               (''timestamp'', PFloat t2)]]"
proof -
  let ?b0 = "Block H (length (chain bc)) (pending_transactions bc) t1 (hash (last (chain bc))) 0"
  have "\<exists>b. mine_block H bc ?b0 = Some b"
    by (rule mine_block_finds [where k = n]) (use assms(2) in \<open>simp_all add: Block_def calculate_hash_def\<close>)
  then obtain b where b: "mine_block H bc ?b0 = Some b" ..
  from mine_block_Some[OF b] have
    "index b = length (chain bc)" "transactions b = pending_transactions bc"
    "previous_hash b = hash (last (chain bc))"
    by (simp_all add: Block_def)
  with b assms(1) show ?thesis
    by (simp add: mine_pending_transactions_def get_latest_block_def reward_transaction_def)
qed


text \<open>The theorem on a fresh chain with one staged transaction, at difficulty 1.\<close>

theorem C6_seal_appends_block_witness:
  "chain (snd (add_transaction
           (Blockchain (\<lambda>i txs ts ph n. if n < 2 then ''a3f1'' else ''00c7'') 0 1)
           ''alice'' ''bob'' (PInt 5) PNone 3)) \<noteq> []
   \<and> (\<exists>b bc'. mine_pending_transactions
                 (\<lambda>i txs ts ph n. if n < 2 then ''a3f1'' else ''00c7'')
                 (snd (add_transaction
                    (Blockchain (\<lambda>i txs ts ph n. if n < 2 then ''a3f1'' else ''00c7'') 0 1)
                    ''alice'' ''bob'' (PInt 5) PNone 3))
                 ''miner'' 4 5 = Some (Inr (b, bc')) \<and>
          index b = 1 \<and>
          transactions b =
            [[(''sender'', PStr ''alice''), (''recipient'', PStr ''bob''),
              (''amount'', PInt 5), (''data'', PDict []), (''timestamp'', PFloat 3)]] \<and>
          previous_hash b = ''a3f1'' \<and>
          length (chain bc') = 2 \<and>
          pending_transactions bc' =
            [[(''sender'', PStr ''system''), (''recipient'', PStr ''miner''),
              (''amount'', PInt 10), (''data'', PDict []), (''timestamp'', PFloat 5)]])"
  using C6_seal_appends_block [of "snd (add_transaction
                    (Blockchain (\<lambda>i txs ts ph n. if n < 2 then ''a3f1'' else ''00c7'') 0 1)
                    ''alice'' ''bob'' (PInt 5) PNone 3)"
                "\<lambda>i txs ts ph n. if n < 2 then ''a3f1'' else ''00c7''" 4 2 "''miner''" 5]
  by (auto simp: add_transaction_def Blockchain_def create_genesis_block_def Block_def)

section \<open>Validation and adding records\<close>

text \<open>Validating a field never removes or changes a key that the payload already has.\<close>

lemma map_of_setitem:
  "map_of (setitem d k v) k' = (if k' = k then Some v else map_of d k')"
  by (induction d) auto

lemma validate_field_keeps:
  assumes "validate_field g d = (r, d')" and "map_of d k = Some v"
  shows "map_of d' k = Some v"
  using assms
  by (auto simp: validate_field_def Let_def has_key_def map_of_setitem split: if_splits)

text \<open>A boolean value passes the test of an \<open>integer\<close> field and leaves the payload as it is,
  so such a field can be left out of the loop without changing its result.\<close>

lemma validate_field_bool_for_integer:
  assumes "field_type f = ''integer''" and "map_of d (field_name f) = Some (PBool b)"
  shows "validate_field f d = (None, d)"
  using assms by (simp add: validate_field_def has_key_def dict_get_def type_check_def)

lemma validate_fields_skip:
  assumes "field_type f = ''integer''" and "map_of d (field_name f) = Some (PBool b)"
  shows "validate_fields fs d = validate_fields (filter (\<lambda>g. g \<noteq> f) fs) d"
  using assms(2)
proof (induction fs arbitrary: d)
  case Nil
  then show ?case by simp
next
  case (Cons g fs)
  show ?case
  proof (cases "g = f")
    case True
    then show ?thesis
      using Cons validate_field_bool_for_integer[OF assms(1) Cons.prems] by simp
  next
    case False
    obtain r d' where gd: "validate_field g d = (r, d')" by (cases "validate_field g d")
    from validate_field_keeps[OF gd Cons.prems] have "map_of d' (field_name f) = Some (PBool b)" .
    from Cons.IH[OF this] gd False show ?thesis by (simp split: option.splits)
  qed
qed

text \<open>
  C4 on the code: the test \<open>field.required and field.name not in data\<close> comes first in the
  loop body, before the default is applied. For the \<open>status\<close> field of the repository's own
  \<open>Order\<close> model (required, default \<open>'pending'\<close>) and the payload \<open>{}\<close> validation raises
  "Required field 'status' is missing" and the payload is left without the default.
\<close>

theorem C4_required_with_default_raises:
  "validate_data []
     \<lparr>dm_name = ''Order'',
      dm_fields = [\<lparr>field_name = ''status'', field_type = ''text'', required = True,
                    field_default = PStr ''pending'', field_description = ''Order status''\<rparr>],
      dm_description = ''Order information'', dm_created_at = 0, version = ''1.0''\<rparr>
   = (Some (MissingRequired ''status''), [])"
  by (simp add: validate_data_def validate_field_def has_key_def)

text \<open>
  C5: when the model is known and \<open>_validate_data\<close> raises on the payload, \<open>add_data\<close>
  returns \<open>None\<close> and the state is the one before the call: no record row, no
  transaction-log entry, the same pending list.
\<close>

theorem C5_invalid_payload_changes_nothing:
  assumes "map_of (data_models st) model_name = Some model"
    and "fst (validate_data data model) = Some e"
  shows "add_data st model_name data record_id current_time transaction_id tx_time stage_time
         = (None, st)"
  using assms
  by (cases "validate_data data model") (simp add: add_data_def add_data_try_def)

text \<open>The scenario of the specification: model \<open>Item\<close> with the required integer field
  \<open>qty\<close>, payload \<open>{}\<close>.\<close>

theorem C5_invalid_payload_witness:
  "add_data
     ((new_db (\<lambda>i txs ts ph n. ''a3f1'') 0 2)
        \<lparr>data_models :=
           [(''Item'', \<lparr>dm_name = ''Item'',
               dm_fields = [\<lparr>field_name = ''qty'', field_type = ''integer'', required = True,
                             field_default = PNone, field_description = []\<rparr>],
               dm_description = [], dm_created_at = 1, version = ''1.0''\<rparr>)]\<rparr>)
     ''Item'' [] ''r1'' 2 ''t1'' 3 4
   = (None,
      (new_db (\<lambda>i txs ts ph n. ''a3f1'') 0 2)
        \<lparr>data_models :=
           [(''Item'', \<lparr>dm_name = ''Item'',
               dm_fields = [\<lparr>field_name = ''qty'', field_type = ''integer'', required = True,
                             field_default = PNone, field_description = []\<rparr>],
               dm_description = [], dm_created_at = 1, version = ''1.0''\<rparr>)]\<rparr>)"
  using C5_invalid_payload_changes_nothing
    [where e = "MissingRequired ''qty''" and model_name = "''Item''" and data = "[]"
       and model = "\<lparr>dm_name = ''Item'',
               dm_fields = [\<lparr>field_name = ''qty'', field_type = ''integer'', required = True,
                             field_default = PNone, field_description = []\<rparr>],
               dm_description = [], dm_created_at = 1, version = ''1.0''\<rparr>"
       and st = "(new_db (\<lambda>i txs ts ph n. ''a3f1'') 0 2)
        \<lparr>data_models :=
           [(''Item'', \<lparr>dm_name = ''Item'',
               dm_fields = [\<lparr>field_name = ''qty'', field_type = ''integer'', required = True,
                             field_default = PNone, field_description = []\<rparr>],
               dm_description = [], dm_created_at = 1, version = ''1.0''\<rparr>)]\<rparr>"]
  by (simp add: validate_data_def validate_field_def has_key_def)

text \<open>
  C10: let \<open>f\<close> be a field of the model with type tag \<open>integer\<close> for which the payload holds
  \<open>True\<close> or \<open>False\<close>. Then the turn of the loop for \<open>f\<close> does not raise, and when the
  other fields validate, \<open>_validate_data\<close> does not raise and \<open>add_data\<close> returns the new
  id (the two fresh identifiers not being in use).
\<close>

theorem C10_bool_accepted_as_integer:
  assumes "map_of (data_models st) model_name = Some model"
    and "f \<in> set (dm_fields model)"
    and "field_type f = ''integer''"
    and "map_of data (field_name f) = Some (PBool b)"
    and "validate_fields (filter (\<lambda>g. g \<noteq> f) (dm_fields model)) data = (None, data')"
    and "record_id \<notin> set (map rec_id (data_records st))"
    and "transaction_id \<notin> set (map tx_id (blockchain_transactions st))"
  shows "validate_field f data = (None, data) \<and>
         validate_data data model = (None, data') \<and>
         fst (add_data st model_name data record_id current_time transaction_id tx_time
                stage_time) = Some record_id"
proof -
  have one: "validate_field f data = (None, data)"
    by (rule validate_field_bool_for_integer) (rule assms)+
  have all: "validate_data data model = (None, data')"
    unfolding validate_data_def
    using validate_fields_skip[OF assms(3) assms(4), of "dm_fields model"] assms(5) by simp
  have "fst (add_data st model_name data record_id current_time transaction_id tx_time
                stage_time) = Some record_id"
    using assms(1,6,7) all
    by (simp add: add_data_def add_data_try_def add_to_blockchain_def Let_def add_transaction_def)
  with one all show ?thesis by simp
qed

text \<open>The theorem for a model with a text field and an integer field, the latter given
  \<open>True\<close>.\<close>

theorem C10_bool_accepted_witness:
  "validate_field
     \<lparr>field_name = ''count'', field_type = ''integer'', required = True,
      field_default = PNone, field_description = []\<rparr>
     [(''name'', PStr ''x''), (''count'', PBool True)]
   = (None, [(''name'', PStr ''x''), (''count'', PBool True)])
   \<and> validate_data [(''name'', PStr ''x''), (''count'', PBool True)]
       \<lparr>dm_name = ''Flag'',
        dm_fields = [\<lparr>field_name = ''name'', field_type = ''text'', required = True,
                      field_default = PNone, field_description = []\<rparr>,
                     \<lparr>field_name = ''count'', field_type = ''integer'', required = True,
                      field_default = PNone, field_description = []\<rparr>],
        dm_description = [], dm_created_at = 1, version = ''1.0''\<rparr>
     = (None, [(''name'', PStr ''x''), (''count'', PBool True)])
   \<and> fst (add_data
       ((new_db (\<lambda>i txs ts ph n. ''a3f1'') 0 2)
         \<lparr>data_models :=
           [(''Flag'', \<lparr>dm_name = ''Flag'',
              dm_fields = [\<lparr>field_name = ''name'', field_type = ''text'', required = True,
                            field_default = PNone, field_description = []\<rparr>,
                           \<lparr>field_name = ''count'', field_type = ''integer'', required = True,
                            field_default = PNone, field_description = []\<rparr>],
              dm_description = [], dm_created_at = 1, version = ''1.0''\<rparr>)]\<rparr>)
       ''Flag'' [(''name'', PStr ''x''), (''count'', PBool True)] ''r1'' 2 ''t1'' 3 4)
     = Some ''r1''"
  using C10_bool_accepted_as_integer
    [where st = "(new_db (\<lambda>i txs ts ph n. ''a3f1'') 0 2)
         \<lparr>data_models :=
           [(''Flag'', \<lparr>dm_name = ''Flag'',
              dm_fields = [\<lparr>field_name = ''name'', field_type = ''text'', required = True,
                            field_default = PNone, field_description = []\<rparr>,
                           \<lparr>field_name = ''count'', field_type = ''integer'', required = True,
                            field_default = PNone, field_description = []\<rparr>],
              dm_description = [], dm_created_at = 1, version = ''1.0''\<rparr>)]\<rparr>"
       and model_name = "''Flag''"
       and model = "\<lparr>dm_name = ''Flag'',
              dm_fields = [\<lparr>field_name = ''name'', field_type = ''text'', required = True,
                            field_default = PNone, field_description = []\<rparr>,
                           \<lparr>field_name = ''count'', field_type = ''integer'', required = True,
                            field_default = PNone, field_description = []\<rparr>],
              dm_description = [], dm_created_at = 1, version = ''1.0''\<rparr>"
       and f = "\<lparr>field_name = ''count'', field_type = ''integer'', required = True,
                 field_default = PNone, field_description = []\<rparr>"
       and data = "[(''name'', PStr ''x''), (''count'', PBool True)]"
       and data' = "[(''name'', PStr ''x''), (''count'', PBool True)]"
       and b = True and record_id = "''r1''" and transaction_id = "''t1''"
       and current_time = 2 and tx_time = 3 and stage_time = 4]
  by (simp add: new_db_def validate_field_def has_key_def dict_get_def type_check_def)

section \<open>Updating records\<close>

text \<open>Validation leaves the payload as it is when every field with a default is already
  in it.\<close>

lemma validate_field_no_default:
  assumes "validate_field f d = (None, d')"
    and "field_default f = PNone \<or> has_key d (field_name f)"
  shows "d' = d"
  using assms by (auto simp: validate_field_def Let_def split: if_splits)

lemma validate_fields_no_default:
  assumes "validate_fields fs d = (None, d')"
    and "list_all (\<lambda>f. field_default f = PNone \<or> has_key d (field_name f)) fs"
  shows "d' = d"
  using assms
proof (induction fs arbitrary: d)
  case Nil
  then show ?case by simp
next
  case (Cons f fs)
  obtain r d1 where fd: "validate_field f d = (r, d1)" by (cases "validate_field f d")
  with Cons.prems(1) have r: "r = None" and rest: "validate_fields fs d1 = (None, d')"
    by (auto split: option.splits)
  from validate_field_no_default[OF fd[unfolded r]] Cons.prems(2) have "d1 = d" by simp
  with Cons.IH[of d1] rest Cons.prems(2) show ?case by simp
qed

text \<open>\<open>SELECT\<close> after \<open>UPDATE ... WHERE id = ?\<close>.\<close>

lemma find_map_update:
  assumes "\<And>r. P (g r) = P r"
  shows "find P (map (\<lambda>r. if P r then g r else r) xs) = map_option g (find P xs)"
  by (induction xs) (auto simp: assms)

text \<open>
  C7, as the code has it: for an existing record whose model is registered and a payload
  that validates, \<open>update_data\<close> returns \<open>True\<close> (the transaction id being fresh); the row
  then stores the payload as validation leaves it (\<open>data'\<close>, which is the payload given
  when no default had to be inserted) in place of the old one, with \<open>updated_at\<close> the
  time of the update; and one transaction of type \<open>data_update\<close> embedding the previous
  payload and the new one is appended to the pending list.
\<close>

theorem C7_update_stores_validated_payload:
  assumes "find (\<lambda>r. rec_id r = record_id) (data_records st) = Some row"
    and "map_of (data_models st) (rec_model_name row) = Some model"
    and "validate_data data model = (None, data')"
    and "transaction_id \<notin> set (map tx_id (blockchain_transactions st))"
  shows "\<exists>st'. update_data st record_id data current_time transaction_id tx_time stage_time
               = (True, st') \<and>
           data_records st' =
             map (\<lambda>r. if rec_id r = record_id
                       then r\<lparr>rec_data := data', rec_updated_at := current_time\<rparr> else r)
                 (data_records st) \<and>
           get_data st' record_id
             = Some (row\<lparr>rec_data := data', rec_updated_at := current_time\<rparr>) \<and>
           pending_transactions (blockchain st') =
             pending_transactions (blockchain st) @
             [[(''sender'', PStr ''system''), (''recipient'', PStr ''system''),
               (''amount'', PFloat 0),
               (''data'', PDict
                  [(''id'', PStr transaction_id), (''type'', PStr ''data_update''),
                   (''data'', PDict
                      [(''record_id'', PStr record_id),
                       (''model_name'', PStr (rec_model_name row)),
                       (''previous_data'', PDict (rec_data row)),
                       (''new_data'', PDict data'),
                       (''updated_at'', PFloat current_time)]),
                   (''timestamp'', PFloat tx_time), (''sender'', PStr ''system''),
                   (''recipient'', PStr ''system''), (''amount'', PFloat 0)]),
               (''timestamp'', PFloat stage_time)]] \<and>
           (list_all (\<lambda>f. field_default f = PNone \<or> has_key data (field_name f))
              (dm_fields model) \<longrightarrow> data' = data)"
proof -
  have same: "list_all (\<lambda>f. field_default f = PNone \<or> has_key data (field_name f))
              (dm_fields model) \<longrightarrow> data' = data"
    using validate_fields_no_default[of "dm_fields model" data data'] assms(3)
    by (simp add: validate_data_def)
  have fnd: "find (\<lambda>r. rec_id r = record_id)
          (map (\<lambda>r. if rec_id r = record_id
                       then r\<lparr>rec_data := data', rec_updated_at := current_time\<rparr> else r)
                 (data_records st))
        = Some (row\<lparr>rec_data := data', rec_updated_at := current_time\<rparr>)"
    using find_map_update[of "\<lambda>r. rec_id r = record_id"
        "\<lambda>r. r\<lparr>rec_data := data', rec_updated_at := current_time\<rparr>" "data_records st"]
      assms(1) by simp
  show ?thesis
    using assms same fnd
    by (simp add: update_data_def update_data_try_def add_to_blockchain_def Let_def
        add_transaction_def get_data_def)
qed

text \<open>
  C7 as stated fails where the model gives a default to the omitted field: a record with
  fields \<open>{a, b}\<close> updated with payload \<open>{a}\<close> stores \<open>{a, b}\<close> again, \<open>b\<close> holding its
  default 5, because validation inserts the default into the payload before it is stored.
\<close>

theorem C7_default_reinserts_dropped_field:
  "map rec_data (data_records
     (snd (add_data
        ((new_db (\<lambda>i txs ts ph n. ''a3f1'') 0 2)
          \<lparr>data_models :=
            [(''M'', \<lparr>dm_name = ''M'',
               dm_fields = [\<lparr>field_name = ''a'', field_type = ''integer'', required = True,
                             field_default = PNone, field_description = []\<rparr>,
                            \<lparr>field_name = ''b'', field_type = ''integer'', required = False,
                             field_default = PInt 5, field_description = []\<rparr>],
               dm_description = [], dm_created_at = 1, version = ''1.0''\<rparr>)]\<rparr>)
        ''M'' [(''a'', PInt 1), (''b'', PInt 2)] ''r1'' 2 ''t1'' 3 4)))
   = [[(''a'', PInt 1), (''b'', PInt 2)]]
   \<and> fst (update_data
     (snd (add_data
        ((new_db (\<lambda>i txs ts ph n. ''a3f1'') 0 2)
          \<lparr>data_models :=
            [(''M'', \<lparr>dm_name = ''M'',
               dm_fields = [\<lparr>field_name = ''a'', field_type = ''integer'', required = True,
                             field_default = PNone, field_description = []\<rparr>,
                            \<lparr>field_name = ''b'', field_type = ''integer'', required = False,
                             field_default = PInt 5, field_description = []\<rparr>],
               dm_description = [], dm_created_at = 1, version = ''1.0''\<rparr>)]\<rparr>)
        ''M'' [(''a'', PInt 1), (''b'', PInt 2)] ''r1'' 2 ''t1'' 3 4))
     ''r1'' [(''a'', PInt 1)] 5 ''t2'' 6 7)
   \<and> map rec_data (data_records (snd (update_data
     (snd (add_data
        ((new_db (\<lambda>i txs ts ph n. ''a3f1'') 0 2)
          \<lparr>data_models :=
            [(''M'', \<lparr>dm_name = ''M'',
               dm_fields = [\<lparr>field_name = ''a'', field_type = ''integer'', required = True,
                             field_default = PNone, field_description = []\<rparr>,
                            \<lparr>field_name = ''b'', field_type = ''integer'', required = False,
                             field_default = PInt 5, field_description = []\<rparr>],
               dm_description = [], dm_created_at = 1, version = ''1.0''\<rparr>)]\<rparr>)
        ''M'' [(''a'', PInt 1), (''b'', PInt 2)] ''r1'' 2 ''t1'' 3 4))
     ''r1'' [(''a'', PInt 1)] 5 ''t2'' 6 7)))
   = [[(''a'', PInt 1), (''b'', PInt 5)]]"
  by (simp add: update_data_def update_data_try_def add_data_def add_data_try_def new_db_def
      validate_data_def validate_field_def has_key_def dict_get_def type_check_def
      add_to_blockchain_def add_transaction_def Let_def)

text \<open>The theorem where \<open>b\<close> has no default: \<open>{a, b}\<close> updated with \<open>{a}\<close> stores only
  \<open>{a}\<close>.\<close>

theorem C7_update_witness:
  "fst (update_data
     (snd (add_data
        ((new_db (\<lambda>i txs ts ph n. ''a3f1'') 0 2)
          \<lparr>data_models :=
            [(''M'', \<lparr>dm_name = ''M'',
               dm_fields = [\<lparr>field_name = ''a'', field_type = ''integer'', required = True,
                             field_default = PNone, field_description = []\<rparr>,
                            \<lparr>field_name = ''b'', field_type = ''integer'', required = False,
                             field_default = PNone, field_description = []\<rparr>],
               dm_description = [], dm_created_at = 1, version = ''1.0''\<rparr>)]\<rparr>)
        ''M'' [(''a'', PInt 1), (''b'', PInt 2)] ''r1'' 2 ''t1'' 3 4))
     ''r1'' [(''a'', PInt 7)] 5 ''t2'' 6 7)
   \<and> map_option rec_data (get_data (snd (update_data
     (snd (add_data
        ((new_db (\<lambda>i txs ts ph n. ''a3f1'') 0 2)
          \<lparr>data_models :=
            [(''M'', \<lparr>dm_name = ''M'',
               dm_fields = [\<lparr>field_name = ''a'', field_type = ''integer'', required = True,
                             field_default = PNone, field_description = []\<rparr>,
                            \<lparr>field_name = ''b'', field_type = ''integer'', required = False,
                             field_default = PNone, field_description = []\<rparr>],
               dm_description = [], dm_created_at = 1, version = ''1.0''\<rparr>)]\<rparr>)
        ''M'' [(''a'', PInt 1), (''b'', PInt 2)] ''r1'' 2 ''t1'' 3 4))
     ''r1'' [(''a'', PInt 7)] 5 ''t2'' 6 7)) ''r1'')
   = Some [(''a'', PInt 7)]"
proof -
  let ?m = "\<lparr>dm_name = ''M'',
               dm_fields = [\<lparr>field_name = ''a'', field_type = ''integer'', required = True,
                             field_default = PNone, field_description = []\<rparr>,
                            \<lparr>field_name = ''b'', field_type = ''integer'', required = False,
                             field_default = PNone, field_description = []\<rparr>],
               dm_description = [], dm_created_at = 1, version = ''1.0''\<rparr>"
  let ?st = "snd (add_data
        ((new_db (\<lambda>i txs ts ph n. ''a3f1'') 0 2) \<lparr>data_models := [(''M'', ?m)]\<rparr>)
        ''M'' [(''a'', PInt 1), (''b'', PInt 2)] ''r1'' 2 ''t1'' 3 4)"
  let ?row = "\<lparr>rec_id = ''r1'', rec_model_name = ''M'',
               rec_data = [(''a'', PInt 1), (''b'', PInt 2)], rec_created_at = 2,
               rec_updated_at = 2, blockchain_transaction_id = Some ''t1'',
               blockchain_block_index = None\<rparr>"
  have st: "data_records ?st = [?row] \<and> data_models ?st = [(''M'', ?m)] \<and>
            map tx_id (blockchain_transactions ?st) = [''t1'']"
    by (simp add: add_data_def add_data_try_def new_db_def
      validate_data_def validate_field_def has_key_def dict_get_def type_check_def
      add_to_blockchain_def add_transaction_def Let_def)
  have v: "validate_data [(''a'', PInt 7)] ?m = (None, [(''a'', PInt 7)])"
    by (simp add: validate_data_def validate_field_def has_key_def dict_get_def type_check_def)
  from C7_update_stores_validated_payload [of "''r1''" ?st ?row ?m "[(''a'', PInt 7)]" "[(''a'', PInt 7)]" "''t2''" 5 6 7] st v
  show ?thesis by auto
qed

section \<open>Searching\<close>

text \<open>
  One criterion in the words of the specification: a key absent from the record's data is
  a non-match; when the criterion value and the stored value are both strings the test is
  the case-insensitive substring test, the criterion in lower case being a substring of
  the stored value in lower case; otherwise it is equality (\<open>==\<close>) of the stored value
  and the criterion value. Lower case is that of \<open>str.lower()\<close>, the parameter \<open>lower\<close>.
\<close>

definition criterion_holds :: "lowering \<Rightarrow> pydict \<Rightarrow> string \<Rightarrow> pyval \<Rightarrow> bool" where
  "criterion_holds lower record_data key v =
     (case map_of record_data key of
        None \<Rightarrow> False
      | Some stored \<Rightarrow>
          if isinstance_str v \<and> isinstance_str stored
          then str_in (lower (str_of v)) (lower (str_of stored))
          else py_eq stored v)"

text \<open>The loop with its \<open>break\<close>s computes the conjunction of the criteria.\<close>

lemma criteria_loop_step:
  "criteria_loop lower record_data ((k, v) # rest) \<longleftrightarrow>
     criterion_holds lower record_data k v \<and> criteria_loop lower record_data rest"
  by (cases "map_of record_data k")
     (simp_all add: criterion_holds_def has_key_def dict_get_def)

lemma criteria_loop_iff:
  "criteria_loop lower record_data criteria \<longleftrightarrow>
     (\<forall>(k, v)\<in>set criteria. criterion_holds lower record_data k v)"
proof (induction criteria)
  case Nil
  then show ?case by simp
next
  case (Cons kv criteria)
  obtain k v where kv: "kv = (k, v)" by (cases kv)
  show ?case unfolding kv criteria_loop_step using Cons.IH by simp
qed

text \<open>The outer loop keeps the records whose \<open>match\<close> flag is still true, in order.\<close>

lemma search_loop_filter:
  "search_loop lower rs criteria = filter (\<lambda>r. criteria_loop lower (rec_data r) criteria) rs"
  by (induction rs) auto

text \<open>
  C8: \<open>search_data\<close> returns a record exactly when it is among the records of
  \<open>get_all_data\<close> and satisfies every criterion (no criterion when \<open>criteria\<close> is \<open>None\<close>).
  This holds whatever the case mapping \<open>lower\<close> of \<open>str.lower()\<close> does to a string, on
  ASCII letters and beyond.
\<close>

theorem C8_search_is_conjunction_of_criteria:
  "r \<in> set (search_data lower st model_name criteria) \<longleftrightarrow>
     r \<in> set (get_all_data st model_name) \<and>
     (\<forall>(k, v)\<in>set (case criteria of None \<Rightarrow> [] | Some c \<Rightarrow> c).
        criterion_holds lower (rec_data r) k v)"
  by (auto simp: search_data_def Let_def search_loop_filter criteria_loop_iff
           split: option.splits)

text \<open>The two examples of the specification, whose strings are ASCII: criterion \<open>"ann"\<close>
  finds the record whose name is \<open>"Anna"\<close>, criterion \<open>"30"\<close> does not find the record whose
  age is the integer 30.\<close>

theorem C8_search_witness:
  "\<lparr>rec_id = ''r1'', rec_model_name = ''P'',
     rec_data = [(''name'', PStr ''Anna''), (''age'', PInt 30)], rec_created_at = 2,
     rec_updated_at = 2, blockchain_transaction_id = Some ''t1'',
     blockchain_block_index = None\<rparr>
   \<in> set (search_data ascii_lower
       (snd (add_data
          ((new_db (\<lambda>i txs ts ph n. ''a3f1'') 0 2)
            \<lparr>data_models :=
              [(''P'', \<lparr>dm_name = ''P'',
                 dm_fields = [\<lparr>field_name = ''name'', field_type = ''text'', required = True,
                               field_default = PNone, field_description = []\<rparr>,
                              \<lparr>field_name = ''age'', field_type = ''integer'', required = True,
                               field_default = PNone, field_description = []\<rparr>],
                 dm_description = [], dm_created_at = 1, version = ''1.0''\<rparr>)]\<rparr>)
          ''P'' [(''name'', PStr ''Anna''), (''age'', PInt 30)] ''r1'' 2 ''t1'' 3 4))
       (Some ''P'') (Some [(''name'', PStr ''ann'')]))
   \<and> \<lparr>rec_id = ''r1'', rec_model_name = ''P'',
     rec_data = [(''name'', PStr ''Anna''), (''age'', PInt 30)], rec_created_at = 2,
     rec_updated_at = 2, blockchain_transaction_id = Some ''t1'',
     blockchain_block_index = None\<rparr>
   \<notin> set (search_data ascii_lower
       (snd (add_data
          ((new_db (\<lambda>i txs ts ph n. ''a3f1'') 0 2)
            \<lparr>data_models :=
              [(''P'', \<lparr>dm_name = ''P'',
                 dm_fields = [\<lparr>field_name = ''name'', field_type = ''text'', required = True,
                               field_default = PNone, field_description = []\<rparr>,
                              \<lparr>field_name = ''age'', field_type = ''integer'', required = True,
                               field_default = PNone, field_description = []\<rparr>],
                 dm_description = [], dm_created_at = 1, version = ''1.0''\<rparr>)]\<rparr>)
          ''P'' [(''name'', PStr ''Anna''), (''age'', PInt 30)] ''r1'' 2 ''t1'' 3 4))
       (Some ''P'') (Some [(''age'', PStr ''30'')]))"
proof -
  let ?row = "\<lparr>rec_id = ''r1'', rec_model_name = ''P'',
     rec_data = [(''name'', PStr ''Anna''), (''age'', PInt 30)], rec_created_at = 2,
     rec_updated_at = 2, blockchain_transaction_id = Some ''t1'',
     blockchain_block_index = None\<rparr>"
  let ?st = "snd (add_data
          ((new_db (\<lambda>i txs ts ph n. ''a3f1'') 0 2)
            \<lparr>data_models :=
              [(''P'', \<lparr>dm_name = ''P'',
                 dm_fields = [\<lparr>field_name = ''name'', field_type = ''text'', required = True,
                               field_default = PNone, field_description = []\<rparr>,
                              \<lparr>field_name = ''age'', field_type = ''integer'', required = True,
                               field_default = PNone, field_description = []\<rparr>],
                 dm_description = [], dm_created_at = 1, version = ''1.0''\<rparr>)]\<rparr>)
          ''P'' [(''name'', PStr ''Anna''), (''age'', PInt 30)] ''r1'' 2 ''t1'' 3 4)"
  have all: "get_all_data ?st (Some ''P'') = [?row]"
    by (simp add: get_all_data_def add_data_def add_data_try_def new_db_def
      validate_data_def validate_field_def has_key_def dict_get_def type_check_def
      add_to_blockchain_def add_transaction_def Let_def)
  have yes: "criterion_holds ascii_lower (rec_data ?row) ''name'' (PStr ''ann'')"
    by (simp add: criterion_holds_def ascii_lower_def ascii_lower_char_def)
  have no: "\<not> criterion_holds ascii_lower (rec_data ?row) ''age'' (PStr ''30'')"
    by (simp add: criterion_holds_def)
  show ?thesis
    using C8_search_is_conjunction_of_criteria
        [of ?row ascii_lower ?st "Some ''P''" "Some [(''name'', PStr ''ann'')]"]
      C8_search_is_conjunction_of_criteria
        [of ?row ascii_lower ?st "Some ''P''" "Some [(''age'', PStr ''30'')]"]
      all yes no
    by simp
qed

section \<open>Mining through the record store\<close>

text \<open>
  The loop of \<open>mine_block\<close> looks for the key \<open>'id'\<close> at the top level of each transaction
  of the block. The transactions the ledger holds are the dictionaries built by
  \<open>add_transaction\<close> and the reward transaction; their keys are \<open>sender\<close>, \<open>recipient\<close>,
  \<open>amount\<close>, \<open>data\<close> and \<open>timestamp\<close>, and the id of the audit entry sits one level down,
  inside \<open>data\<close>. On such transactions the loop changes nothing.
\<close>

lemma backfill_without_id:
  "list_all (\<lambda>tx. \<not> truthy (dict_get tx ''id'')) txs \<Longrightarrow> backfill B bi txs st = (None, st)"
  by (induction txs) auto

lemma add_transaction_without_id:
  "dict_get (last (pending_transactions
      (snd (add_transaction bc sender recipient amount data now)))) ''id'' = PNone"
  by (simp add: add_transaction_def dict_get_def)

lemma reward_transaction_without_id:
  "dict_get (reward_transaction bc miner now) ''id'' = PNone"
  by (simp add: reward_transaction_def dict_get_def)

text \<open>So a mine over such a pending list leaves both tables as they were.\<close>

lemma db_mine_block_no_backfill:
  assumes "list_all (\<lambda>tx. \<not> truthy (dict_get tx ''id''))
             (pending_transactions (blockchain st))"
    and "db_mine_block H B st t1 t2 = Some (r, st')"
  shows "data_records st' = data_records st \<and>
         blockchain_transactions st' = blockchain_transactions st"
proof (cases "mine_pending_transactions H (blockchain st) ''system'' t1 t2")
  case None
  with assms(2) show ?thesis
    by (auto simp: db_mine_block_def db_mine_block_try_def split: if_splits)
next
  case (Some res)
  show ?thesis
  proof (cases res)
    case (Inl e)
    with Some assms(2) show ?thesis
      by (auto simp: db_mine_block_def db_mine_block_try_def split: if_splits)
  next
    case (Inr p)
    obtain b bc1 where p: "p = (b, bc1)" by (cases p)
    from mine_pending_transactions_Some[OF Some[unfolded Inr p]]
    have "mine_block H (blockchain st)
              (Block H (length (chain (blockchain st))) (pending_transactions (blockchain st))
                 t1 (hash (last (chain (blockchain st)))) 0) = Some b"
      by simp
    from mine_block_Some[OF this]
    have txs: "transactions b = pending_transactions (blockchain st)"
      by (simp add: Block_def)
    have bf: "backfill B (index b) (transactions b) s = (None, s)" for s
      unfolding txs by (rule backfill_without_id) (rule assms(1))
    from assms(2) Some Inr p bf show ?thesis
      by (auto simp: db_mine_block_def db_mine_block_try_def Let_def split: if_splits)
  qed
qed

text \<open>
  C1 on the code: three successful \<open>add_data\<close> calls on model \<open>Item\<close>, then one
  \<open>mine_block\<close> at difficulty 1, whatever SQLite makes of a bound value (the two
  \<open>UPDATE\<close> statements are never reached). The mine succeeds: the summary counts 3 transactions at
  block index 1, the chain has 2 blocks and the pending list 1 transaction. But
  \<open>blockchain_block_index\<close> of the three record rows and \<open>block_index\<close> of the three
  transaction-log rows are still \<open>NULL\<close>, where the specification has them set to 1.
\<close>

theorem C1_mine_leaves_block_index_unset:
  "map_option
     (\<lambda>(r, st). (map_option transaction_count r, map_option info_index r,
                 length (chain (blockchain st)),
                 length (pending_transactions (blockchain st)),
                 map blockchain_block_index (data_records st),
                 map block_index (blockchain_transactions st)))
     (db_mine_block (\<lambda>i txs ts ph n. if n < 2 then ''a3f1'' else ''00c7'') B
        (snd (add_data (snd (add_data (snd (add_data
           ((new_db (\<lambda>i txs ts ph n. if n < 2 then ''a3f1'' else ''00c7'') 0 1)
             \<lparr>data_models :=
               [(''Item'', \<lparr>dm_name = ''Item'',
                  dm_fields = [\<lparr>field_name = ''qty'', field_type = ''integer'',
                                required = True, field_default = PNone,
                                field_description = []\<rparr>],
                  dm_description = [], dm_created_at = 1, version = ''1.0''\<rparr>)]\<rparr>)
           ''Item'' [(''qty'', PInt 1)] ''r1'' 2 ''t1'' 2 2))
           ''Item'' [(''qty'', PInt 2)] ''r2'' 3 ''t2'' 3 3))
           ''Item'' [(''qty'', PInt 3)] ''r3'' 4 ''t3'' 4 4))
        5 6)
   = Some (Some 3, Some 1, 2, 1, [None, None, None], [None, None, None])"
  by (simp add: db_mine_block_def db_mine_block_try_def mine_pending_transactions_def
      get_latest_block_def mine_block.simps calculate_hash_def Block_def
      add_data_def add_data_try_def new_db_def Blockchain_def create_genesis_block_def
      validate_data_def validate_field_def has_key_def dict_get_def type_check_def
      add_to_blockchain_def add_transaction_def Let_def reward_transaction_def)

text \<open>The back-fill loop touches the tables only, never the ledger.\<close>

lemma backfill_blockchain:
  "backfill B bi txs st = (r, st') \<Longrightarrow> blockchain st' = blockchain st"
proof (induction txs arbitrary: st)
  case Nil
  then show ?case by simp
next
  case (Cons tx txs)
  show ?case
  proof (cases "truthy (dict_get tx ''id'')")
    case False
    with Cons show ?thesis by simp
  next
    case True
    show ?thesis
    proof (cases "B (dict_get tx ''id'')")
      case (Inl e)
      with Cons.prems True show ?thesis by simp
    next
      case (Inr key)
      let ?st1 = "st\<lparr>blockchain_transactions :=
                      map (\<lambda>r. if Some (tx_id r) = key
                                then r\<lparr>block_index := Some bi\<rparr> else r)
                          (blockchain_transactions st)\<rparr>"
      show ?thesis
      proof (cases "if has_key tx ''data'' then dict_get tx ''data'' else PDict []")
        case (PDict d)
        show ?thesis
        proof (cases "truthy (dict_get d ''record_id'')")
          case yes: True
          show ?thesis
          proof (cases "B (dict_get d ''record_id'')")
            case (Inl e)
            with Cons.prems True Inr PDict yes show ?thesis by (auto simp: Let_def)
          next
            case rk: (Inr record_key)
            from Cons.prems True Inr PDict yes rk
            have "backfill B bi txs
                    (?st1\<lparr>data_records :=
                       map (\<lambda>r. if Some (rec_id r) = record_key
                                 then r\<lparr>blockchain_block_index := Some bi\<rparr> else r)
                           (data_records ?st1)\<rparr>) = (r, st')"
              by (simp add: Let_def)
            from Cons.IH[OF this] show ?thesis by simp
          qed
        next
          case no: False
          from Cons.prems True Inr PDict no have "backfill B bi txs ?st1 = (r, st')"
            by (simp add: Let_def)
          from Cons.IH[OF this] show ?thesis by simp
        qed
      qed (use Cons.prems True Inr in \<open>auto simp: Let_def\<close>)
    qed
  qed
qed

text \<open>Past the test for an empty pending list, a \<open>mine_block\<close> that returns has sealed a
  block holding the pending transactions, whatever happens to the inserts afterwards.\<close>

lemma db_mine_block_try_seals:
  assumes "pending_transactions (blockchain st) \<noteq> []"
    and "db_mine_block_try H B st t1 t2 = Some (r, st')"
    and "chain (blockchain st) \<noteq> []"
  shows "\<exists>b. mine_pending_transactions H (blockchain st) ''system'' t1 t2
               = Some (Inr (b, blockchain st')) \<and>
             blockchain st' =
               (blockchain st)\<lparr>chain := chain (blockchain st) @ [b],
                 pending_transactions := [reward_transaction (blockchain st) ''system'' t2]\<rparr> \<and>
             transactions b = pending_transactions (blockchain st)"
proof -
  from assms(3) have tip: "get_latest_block (blockchain st) = Inr (last (chain (blockchain st)))"
    by (simp add: get_latest_block_def)
  from assms(1,2) obtain res where
    res: "mine_pending_transactions H (blockchain st) ''system'' t1 t2 = Some res"
    by (auto simp: db_mine_block_try_def split: option.splits)
  with tip obtain b bc1 where rb: "res = Inr (b, bc1)"
    by (auto simp: mine_pending_transactions_def split: option.splits)
  from mine_pending_transactions_Some[OF res[unfolded rb]]
  have mb: "mine_block H (blockchain st)
              (Block H (length (chain (blockchain st))) (pending_transactions (blockchain st))
                 t1 (hash (last (chain (blockchain st)))) 0) = Some b"
    and bc1: "bc1 = (blockchain st)\<lparr>chain := chain (blockchain st) @ [b],
                 pending_transactions := [reward_transaction (blockchain st) ''system'' t2]\<rparr>"
    by simp_all
  from mine_block_Some[OF mb] have txs: "transactions b = pending_transactions (blockchain st)"
    by (simp add: Block_def)
  have "blockchain st' = bc1"
  proof (cases "index b \<in> set (map index (blockchain_blocks st))")
    case True
    with assms(1,2) res rb show ?thesis by (auto simp: db_mine_block_try_def Let_def)
  next
    case False
    obtain e st3 where bf: "backfill B (index b) (transactions b)
        (st\<lparr>blockchain := bc1, blockchain_blocks := blockchain_blocks st @ [b]\<rparr>) = (e, st3)"
      by (cases "backfill B (index b) (transactions b)
        (st\<lparr>blockchain := bc1, blockchain_blocks := blockchain_blocks st @ [b]\<rparr>)")
    from backfill_blockchain[OF bf] have "blockchain st3 = bc1" by simp
    with assms(1,2) res rb False bf show ?thesis
      by (auto simp: db_mine_block_try_def Let_def split: option.splits)
  qed
  with res rb bc1 txs show ?thesis by auto
qed

text \<open>When some nonce meets the target, the seal and then \<open>mine_block\<close> return.\<close>

lemma mine_pending_transactions_returns:
  assumes "chain bc \<noteq> []"
    and "take (difficulty bc)
           (H (length (chain bc)) (pending_transactions bc) t1 (hash (last (chain bc))) n)
         = replicate (difficulty bc) CHR ''0''"
  shows "\<exists>x. mine_pending_transactions H bc miner_id t1 t2 = Some x"
proof -
  have "\<exists>b. mine_block H bc
          (Block H (length (chain bc)) (pending_transactions bc) t1 (hash (last (chain bc))) 0)
        = Some b"
    by (rule mine_block_finds [where k = n])
       (use assms(2) in \<open>simp_all add: Block_def calculate_hash_def\<close>)
  with assms(1) show ?thesis
    by (auto simp: mine_pending_transactions_def get_latest_block_def)
qed

lemma db_mine_block_try_returns:
  assumes "mine_pending_transactions H (blockchain st) ''system'' t1 t2 = Some x"
  shows "\<exists>y. db_mine_block_try H B st t1 t2 = Some y"
  using assms
  by (auto simp: db_mine_block_try_def Let_def split: sum.splits prod.splits option.splits)

text \<open>
  Between two mines the pending list only grows: \<open>add_transaction\<close> appends to it and
  leaves the chain alone, and \<open>_add_to_blockchain\<close>, through which \<open>create_data_model\<close>,
  \<open>add_data\<close> and \<open>update_data\<close> reach the ledger, does nothing else to it.
\<close>

definition staged :: "blockchain \<Rightarrow> blockchain \<Rightarrow> bool" where
  "staged bc bc' \<longleftrightarrow>
     chain bc' = chain bc \<and>
     (\<exists>txs. pending_transactions bc' = pending_transactions bc @ txs)"

lemma staged_refl: "staged bc bc"
  by (simp add: staged_def)

lemma add_transaction_staged:
  "staged bc (snd (add_transaction bc sender recipient amount data now))"
  by (simp add: staged_def add_transaction_def Let_def)

lemma add_to_blockchain_staged:
  "staged (blockchain st)
     (blockchain (snd (add_to_blockchain st ttype data transaction_id current_time stage_time)))"
  by (simp add: staged_def add_to_blockchain_def add_transaction_def Let_def)

lemma create_data_model_staged:
  "staged (blockchain st)
     (blockchain (snd (create_data_model st name field_list description now transaction_id
                         tx_time stage_time)))"
  by (auto simp: staged_def create_data_model_def create_data_model_try_def
        add_to_blockchain_def add_transaction_def Let_def
      split: sum.splits prod.splits if_splits)

lemma add_data_staged:
  "staged (blockchain st)
     (blockchain (snd (add_data st model_name data record_id current_time transaction_id
                         tx_time stage_time)))"
  by (auto simp: staged_def add_data_def add_data_try_def
        add_to_blockchain_def add_transaction_def Let_def
      split: sum.splits prod.splits if_splits option.splits)

lemma update_data_staged:
  "staged (blockchain st)
     (blockchain (snd (update_data st record_id data current_time transaction_id tx_time
                         stage_time)))"
  by (auto simp: staged_def update_data_def update_data_try_def
        add_to_blockchain_def add_transaction_def Let_def
      split: sum.splits prod.splits if_splits option.splits)


text \<open>A call on a state whose pending list and chain are not empty leaves them so: a
  staging call appends to the pending list, a mine replaces it by the reward
  transaction.\<close>

lemma db_mine_block_try_of:
  "db_mine_block H B st t1 t2 = Some (r, st') \<Longrightarrow>
     \<exists>x. db_mine_block_try H B st t1 t2 = Some (x, st')"
  by (auto simp: db_mine_block_def split: option.splits sum.splits prod.splits)

lemma do_call_keeps_pending:
  assumes "do_call H B st c = Some st'"
    and "pending_transactions (blockchain st) \<noteq> []"
    and "chain (blockchain st) \<noteq> []"
  shows "pending_transactions (blockchain st') \<noteq> [] \<and> chain (blockchain st') \<noteq> []"
proof (cases c)
  case (Create_data_model name field_list description now transaction_id tx_time stage_time)
  with assms(1) create_data_model_staged
    [of st name field_list description now transaction_id tx_time stage_time] assms(2,3)
  show ?thesis by (auto simp: staged_def)
next
  case (Add_data model_name data record_id current_time transaction_id tx_time stage_time)
  with assms(1) add_data_staged
    [of st model_name data record_id current_time transaction_id tx_time stage_time] assms(2,3)
  show ?thesis by (auto simp: staged_def)
next
  case (Update_data record_id data current_time transaction_id tx_time stage_time)
  with assms(1) update_data_staged
    [of st record_id data current_time transaction_id tx_time stage_time] assms(2,3)
  show ?thesis by (auto simp: staged_def)
next
  case (Mine_block t1 t2)
  with assms(1) obtain r where "db_mine_block H B st t1 t2 = Some (r, st')" by auto
  from db_mine_block_try_of[OF this] obtain x where
    "db_mine_block_try H B st t1 t2 = Some (x, st')" ..
  from db_mine_block_try_seals[OF assms(2) this assms(3)] show ?thesis by auto
next
  case (Add_transaction sender recipient amount data now)
  with assms(1) add_transaction_staged [of "blockchain st" sender recipient amount data now]
    assms(2,3)
  show ?thesis by (auto simp: staged_def)
next
  case (Mine_pending_transactions miner_address t1 t2)
  show ?thesis
  proof (cases "mine_pending_transactions H (blockchain st) miner_address t1 t2")
    case None
    with assms(1) Mine_pending_transactions show ?thesis by simp
  next
    case (Some res)
    show ?thesis
    proof (cases res)
      case (Inl e)
      with assms Some Mine_pending_transactions show ?thesis by auto
    next
      case (Inr p)
      obtain b bc1 where p: "p = (b, bc1)" by (cases p)
      from mine_pending_transactions_Some[OF Some[unfolded Inr p]]
      have "bc1 = (blockchain st)\<lparr>chain := chain (blockchain st) @ [b],
                pending_transactions := [reward_transaction (blockchain st) miner_address t2]\<rparr>"
        by simp
      with assms(1) Some Inr p Mine_pending_transactions show ?thesis by auto
    qed
  qed
qed

lemma do_calls_keep_pending:
  assumes "do_calls H B st calls = Some st'"
    and "pending_transactions (blockchain st) \<noteq> []"
    and "chain (blockchain st) \<noteq> []"
  shows "pending_transactions (blockchain st') \<noteq> [] \<and> chain (blockchain st') \<noteq> []"
  using assms
proof (induction calls arbitrary: st)
  case Nil
  then show ?case by simp
next
  case (Cons c calls)
  from Cons.prems(1) obtain st1 where
    c: "do_call H B st c = Some st1" and rest: "do_calls H B st1 calls = Some st'"
    by (auto split: option.splits)
  from do_call_keeps_pending[OF c Cons.prems(2,3)] Cons.IH[OF rest] show ?case by blast
qed

text \<open>What a \<open>mine_block\<close> does on a state whose pending list and chain are not empty.\<close>

lemma db_mine_block_seals:
  assumes "pending_transactions (blockchain st) \<noteq> []"
    and "chain (blockchain st) \<noteq> []"
  shows "db_mine_block H B st t1 t2 \<noteq> Some (None, st)"
    and "db_mine_block H B st t1 t2 = Some (r, st') \<Longrightarrow>
           \<exists>b. chain (blockchain st') = chain (blockchain st) @ [b] \<and>
               transactions b = pending_transactions (blockchain st)"
    and "take (difficulty (blockchain st))
           (H (length (chain (blockchain st))) (pending_transactions (blockchain st))
              t1 (hash (last (chain (blockchain st)))) n)
         = replicate (difficulty (blockchain st)) CHR ''0'' \<Longrightarrow>
           \<exists>r st'. db_mine_block H B st t1 t2 = Some (r, st')"
proof -
  have seal: "\<exists>b. chain (blockchain s) = chain (blockchain st) @ [b] \<and>
               transactions b = pending_transactions (blockchain st)"
    if "db_mine_block H B st t1 t2 = Some (q, s)" for q s
  proof -
    from db_mine_block_try_of[OF that] obtain x where
      "db_mine_block_try H B st t1 t2 = Some (x, s)" ..
    from db_mine_block_try_seals[OF assms(1) this assms(2)] show ?thesis by auto
  qed
  show "db_mine_block H B st t1 t2 \<noteq> Some (None, st)"
  proof
    assume "db_mine_block H B st t1 t2 = Some (None, st)"
    from seal[OF this] show False by simp
  qed
  show "\<exists>b. chain (blockchain st') = chain (blockchain st) @ [b] \<and>
               transactions b = pending_transactions (blockchain st)"
    if "db_mine_block H B st t1 t2 = Some (r, st')"
    using seal[OF that] .
  show "\<exists>r st'. db_mine_block H B st t1 t2 = Some (r, st')"
    if "take (difficulty (blockchain st))
           (H (length (chain (blockchain st))) (pending_transactions (blockchain st))
              t1 (hash (last (chain (blockchain st)))) n)
         = replicate (difficulty (blockchain st)) CHR ''0''"
  proof -
    from mine_pending_transactions_returns
      [where H = H and bc = "blockchain st" and ?t1.0 = t1 and n = n
         and miner_id = "''system''" and ?t2.0 = t2, OF assms(2) that]
    obtain x where "mine_pending_transactions H (blockchain st) ''system'' t1 t2 = Some x"
      by blast
    from db_mine_block_try_returns[OF this] obtain y where
      "db_mine_block_try H B st t1 t2 = Some y" ..
    then show ?thesis
      by (cases y) (auto simp: db_mine_block_def split: sum.splits)
  qed
qed

text \<open>The ledger after a mine that succeeded, through the record store or directly.\<close>

lemma after_successful_mine:
  assumes "(db_mine_block H B st t1 t2 = Some (Some info, st1) \<and> miner = ''system'') \<or>
           mine_pending_transactions H (blockchain st) miner t1 t2
             = Some (Inr (b1, blockchain st1))"
  shows "pending_transactions (blockchain st1)
           = [reward_transaction (blockchain st) miner t2] \<and>
         chain (blockchain st1) \<noteq> []"
  using assms
proof
  assume a: "db_mine_block H B st t1 t2 = Some (Some info, st1) \<and> miner = ''system''"
  then have try1: "db_mine_block_try H B st t1 t2 = Some (Inr (Some info), st1)"
    by (auto simp: db_mine_block_def split: option.splits sum.splits prod.splits)
  then have pend: "pending_transactions (blockchain st) \<noteq> []"
    by (auto simp: db_mine_block_try_def)
  from try1 pend have ch: "chain (blockchain st) \<noteq> []"
    by (auto simp: db_mine_block_try_def mine_pending_transactions_def get_latest_block_def
        split: if_splits)
  from db_mine_block_try_seals[OF pend try1 ch] a show ?thesis by auto
next
  assume "mine_pending_transactions H (blockchain st) miner t1 t2
            = Some (Inr (b1, blockchain st1))"
  from mine_pending_transactions_Some[OF this] show ?thesis by auto
qed


text \<open>
  C9: after a mine that succeeded, a \<open>mine_block\<close> that returned a summary or a
  \<open>mine_pending_transactions\<close> that returned its block, the pending list is exactly the
  one reward transaction. From then on, whatever calls come in between (models created,
  records added or updated, transactions staged on the ledger, further mines), the
  pending list is not empty, so \<open>mine_block\<close> is never the no-op that returns \<open>None\<close> and
  leaves the state alone: whenever it returns, the chain has grown by one block that
  holds the pending transactions, which is the reward transaction alone when no call
  came in between; and it does return when some nonce meets the proof-of-work target.
\<close>

theorem C9_pending_nonempty_after_mine:
  assumes "(db_mine_block H B st t1 t2 = Some (Some info, st1) \<and> miner = ''system'') \<or>
           mine_pending_transactions H (blockchain st) miner t1 t2
             = Some (Inr (b1, blockchain st1))"
    and "do_calls H B st1 calls = Some st2"
  shows "pending_transactions (blockchain st1)
           = [reward_transaction (blockchain st) miner t2] \<and>
         pending_transactions (blockchain st2) \<noteq> [] \<and>
         db_mine_block H B st2 t3 t4 \<noteq> Some (None, st2) \<and>
         (\<forall>r st3. db_mine_block H B st2 t3 t4 = Some (r, st3) \<longrightarrow>
            (\<exists>b. chain (blockchain st3) = chain (blockchain st2) @ [b] \<and>
                 transactions b = pending_transactions (blockchain st2) \<and>
                 (calls = [] \<longrightarrow>
                    transactions b = [reward_transaction (blockchain st) miner t2]))) \<and>
         ((\<exists>n. take (difficulty (blockchain st2))
                  (H (length (chain (blockchain st2))) (pending_transactions (blockchain st2))
                     t3 (hash (last (chain (blockchain st2)))) n)
                = replicate (difficulty (blockchain st2)) CHR ''0'') \<longrightarrow>
            (\<exists>r st3. db_mine_block H B st2 t3 t4 = Some (r, st3)))"
proof -
  from after_successful_mine[OF assms(1)]
  have p1: "pending_transactions (blockchain st1)
              = [reward_transaction (blockchain st) miner t2]"
    and c1: "chain (blockchain st1) \<noteq> []"
    by simp_all
  from p1 have "pending_transactions (blockchain st1) \<noteq> []" by simp
  from do_calls_keep_pending[OF assms(2) this c1]
  have p2: "pending_transactions (blockchain st2) \<noteq> []"
    and c2: "chain (blockchain st2) \<noteq> []"
    by simp_all
  have same: "st2 = st1" if "calls = []"
    using assms(2) that by simp
  have next_seal:
    "\<forall>r st3. db_mine_block H B st2 t3 t4 = Some (r, st3) \<longrightarrow>
            (\<exists>b. chain (blockchain st3) = chain (blockchain st2) @ [b] \<and>
                 transactions b = pending_transactions (blockchain st2) \<and>
                 (calls = [] \<longrightarrow>
                    transactions b = [reward_transaction (blockchain st) miner t2]))"
  proof (intro allI impI)
    fix r st3
    assume "db_mine_block H B st2 t3 t4 = Some (r, st3)"
    from db_mine_block_seals(2)[OF p2 c2 this] obtain b where
      b: "chain (blockchain st3) = chain (blockchain st2) @ [b]"
         "transactions b = pending_transactions (blockchain st2)"
      by blast
    from b(2) same p1
    have "calls = [] \<longrightarrow> transactions b = [reward_transaction (blockchain st) miner t2]"
      by simp
    with b show "\<exists>b. chain (blockchain st3) = chain (blockchain st2) @ [b] \<and>
                 transactions b = pending_transactions (blockchain st2) \<and>
                 (calls = [] \<longrightarrow>
                    transactions b = [reward_transaction (blockchain st) miner t2])"
      by blast
  qed
  have returns:
    "(\<exists>n. take (difficulty (blockchain st2))
                  (H (length (chain (blockchain st2))) (pending_transactions (blockchain st2))
                     t3 (hash (last (chain (blockchain st2)))) n)
                = replicate (difficulty (blockchain st2)) CHR ''0'') \<longrightarrow>
            (\<exists>r st3. db_mine_block H B st2 t3 t4 = Some (r, st3))"
    using db_mine_block_seals(3)[OF p2 c2] by blast
  from p1 p2 db_mine_block_seals(1)[OF p2 c2] next_seal returns show ?thesis
    by (intro conjI)
qed

text \<open>
  The theorem at difficulty 1: one \<open>add_data\<close> and a \<open>mine_block\<close> that succeeds leave one
  pending transaction; a \<open>create_data_model\<close> and a second \<open>add_data\<close> make them three, and
  the \<open>mine_block\<close> that follows is no no-op.
\<close>

theorem C9_pending_nonempty_witness:
  "pending_transactions (blockchain
     (snd (the (db_mine_block (\<lambda>i txs ts ph n. if n < 2 then ''a3f1'' else ''00c7'')
        (\<lambda>v. case v of PStr s \<Rightarrow> Inr (Some s) | _ \<Rightarrow> Inr None)
        (snd (add_data
          ((new_db (\<lambda>i txs ts ph n. if n < 2 then ''a3f1'' else ''00c7'') 0 1)
            \<lparr>data_models :=
              [(''Item'', \<lparr>dm_name = ''Item'',
                 dm_fields = [\<lparr>field_name = ''qty'', field_type = ''integer'',
                               required = True, field_default = PNone,
                               field_description = []\<rparr>],
                 dm_description = [], dm_created_at = 1, version = ''1.0''\<rparr>)]\<rparr>)
          ''Item'' [(''qty'', PInt 1)] ''r1'' 2 ''t1'' 3 4))
        5 6))))
   = [[(''sender'', PStr ''system''), (''recipient'', PStr ''system''),
       (''amount'', PInt 10), (''data'', PDict []), (''timestamp'', PFloat 6)]]
   \<and> length (pending_transactions (blockchain
     (the (do_calls (\<lambda>i txs ts ph n. if n < 2 then ''a3f1'' else ''00c7'')
        (\<lambda>v. case v of PStr s \<Rightarrow> Inr (Some s) | _ \<Rightarrow> Inr None)
        (snd (the (db_mine_block (\<lambda>i txs ts ph n. if n < 2 then ''a3f1'' else ''00c7'')
        (\<lambda>v. case v of PStr s \<Rightarrow> Inr (Some s) | _ \<Rightarrow> Inr None)
        (snd (add_data
          ((new_db (\<lambda>i txs ts ph n. if n < 2 then ''a3f1'' else ''00c7'') 0 1)
            \<lparr>data_models :=
              [(''Item'', \<lparr>dm_name = ''Item'',
                 dm_fields = [\<lparr>field_name = ''qty'', field_type = ''integer'',
                               required = True, field_default = PNone,
                               field_description = []\<rparr>],
                 dm_description = [], dm_created_at = 1, version = ''1.0''\<rparr>)]\<rparr>)
          ''Item'' [(''qty'', PInt 1)] ''r1'' 2 ''t1'' 3 4))
        5 6)))
        [Create_data_model ''Tag''
           [\<lparr>spec_name = Some ''label'', spec_type = Some ''text'', spec_required = None,
             spec_default = PNone, spec_description = None\<rparr>]
           ''labels'' 7 ''t2'' 7 7,
         Add_data ''Item'' [(''qty'', PInt 2)] ''r2'' 8 ''t3'' 8 8])))) = 3
   \<and> db_mine_block (\<lambda>i txs ts ph n. if n < 2 then ''a3f1'' else ''00c7'')
     (\<lambda>v. case v of PStr s \<Rightarrow> Inr (Some s) | _ \<Rightarrow> Inr None)
     (the (do_calls (\<lambda>i txs ts ph n. if n < 2 then ''a3f1'' else ''00c7'')
        (\<lambda>v. case v of PStr s \<Rightarrow> Inr (Some s) | _ \<Rightarrow> Inr None)
        (snd (the (db_mine_block (\<lambda>i txs ts ph n. if n < 2 then ''a3f1'' else ''00c7'')
        (\<lambda>v. case v of PStr s \<Rightarrow> Inr (Some s) | _ \<Rightarrow> Inr None)
        (snd (add_data
          ((new_db (\<lambda>i txs ts ph n. if n < 2 then ''a3f1'' else ''00c7'') 0 1)
            \<lparr>data_models :=
              [(''Item'', \<lparr>dm_name = ''Item'',
                 dm_fields = [\<lparr>field_name = ''qty'', field_type = ''integer'',
                               required = True, field_default = PNone,
                               field_description = []\<rparr>],
                 dm_description = [], dm_created_at = 1, version = ''1.0''\<rparr>)]\<rparr>)
          ''Item'' [(''qty'', PInt 1)] ''r1'' 2 ''t1'' 3 4))
        5 6)))
        [Create_data_model ''Tag''
           [\<lparr>spec_name = Some ''label'', spec_type = Some ''text'', spec_required = None,
             spec_default = PNone, spec_description = None\<rparr>]
           ''labels'' 7 ''t2'' 7 7,
         Add_data ''Item'' [(''qty'', PInt 2)] ''r2'' 8 ''t3'' 8 8]))
     10 11
   \<noteq> Some (None,
     (the (do_calls (\<lambda>i txs ts ph n. if n < 2 then ''a3f1'' else ''00c7'')
        (\<lambda>v. case v of PStr s \<Rightarrow> Inr (Some s) | _ \<Rightarrow> Inr None)
        (snd (the (db_mine_block (\<lambda>i txs ts ph n. if n < 2 then ''a3f1'' else ''00c7'')
        (\<lambda>v. case v of PStr s \<Rightarrow> Inr (Some s) | _ \<Rightarrow> Inr None)
        (snd (add_data
          ((new_db (\<lambda>i txs ts ph n. if n < 2 then ''a3f1'' else ''00c7'') 0 1)
            \<lparr>data_models :=
              [(''Item'', \<lparr>dm_name = ''Item'',
                 dm_fields = [\<lparr>field_name = ''qty'', field_type = ''integer'',
                               required = True, field_default = PNone,
                               field_description = []\<rparr>],
                 dm_description = [], dm_created_at = 1, version = ''1.0''\<rparr>)]\<rparr>)
          ''Item'' [(''qty'', PInt 1)] ''r1'' 2 ''t1'' 3 4))
        5 6)))
        [Create_data_model ''Tag''
           [\<lparr>spec_name = Some ''label'', spec_type = Some ''text'', spec_required = None,
             spec_default = PNone, spec_description = None\<rparr>]
           ''labels'' 7 ''t2'' 7 7,
         Add_data ''Item'' [(''qty'', PInt 2)] ''r2'' 8 ''t3'' 8 8])))"
proof -
  let ?H = "\<lambda>(i::nat) (txs::pydict list) (ts::real) (ph::string) (n::nat).
              if n < 2 then ''a3f1'' else ''00c7''"
  let ?B = "\<lambda>v. case v of PStr s \<Rightarrow> Inr (Some s) | _ \<Rightarrow> Inr None"
  let ?st = "snd (add_data
           ((new_db ?H 0 1)
             \<lparr>data_models :=
               [(''Item'', \<lparr>dm_name = ''Item'',
                  dm_fields = [\<lparr>field_name = ''qty'', field_type = ''integer'',
                                required = True, field_default = PNone,
                                field_description = []\<rparr>],
                  dm_description = [], dm_created_at = 1, version = ''1.0''\<rparr>)]\<rparr>)
           ''Item'' [(''qty'', PInt 1)] ''r1'' 2 ''t1'' 3 4)"
  let ?calls = "[Create_data_model ''Tag''
           [\<lparr>spec_name = Some ''label'', spec_type = Some ''text'', spec_required = None,
             spec_default = PNone, spec_description = None\<rparr>]
           ''labels'' 7 ''t2'' 7 7,
         Add_data ''Item'' [(''qty'', PInt 2)] ''r2'' 8 ''t3'' 8 8]"
  have "\<exists>info st1. db_mine_block ?H ?B ?st 5 6 = Some (Some info, st1)"
    by (simp add: db_mine_block_def db_mine_block_try_def mine_pending_transactions_def
      get_latest_block_def mine_block.simps calculate_hash_def Block_def
      add_data_def add_data_try_def new_db_def Blockchain_def create_genesis_block_def
      validate_data_def validate_field_def has_key_def dict_get_def type_check_def
      add_to_blockchain_def add_transaction_def Let_def reward_transaction_def)
  then obtain info st1 where run: "db_mine_block ?H ?B ?st 5 6 = Some (Some info, st1)"
    by blast
  have rw: "reward_transaction (blockchain ?st) ''system'' 6 =
     [(''sender'', PStr ''system''), (''recipient'', PStr ''system''),
       (''amount'', PInt 10), (''data'', PDict []), (''timestamp'', PFloat 6)]"
    by (simp add: reward_transaction_def add_data_def add_data_try_def new_db_def
      Blockchain_def create_genesis_block_def
      validate_data_def validate_field_def has_key_def dict_get_def type_check_def
      add_to_blockchain_def add_transaction_def Let_def)
  let ?st2 = "snd (add_data
      (snd (create_data_model st1 ''Tag''
         [\<lparr>spec_name = Some ''label'', spec_type = Some ''text'', spec_required = None,
           spec_default = PNone, spec_description = None\<rparr>]
         ''labels'' 7 ''t2'' 7 7))
      ''Item'' [(''qty'', PInt 2)] ''r2'' 8 ''t3'' 8 8)"
  have calls: "do_calls ?H ?B st1 ?calls = Some ?st2"
    by simp
  have mined: "(db_mine_block ?H ?B ?st 5 6 = Some (Some info, st1) \<and> ''system'' = ''system'') \<or>
     mine_pending_transactions ?H (blockchain ?st) ''system'' 5 6
       = Some (Inr (last (chain (blockchain st1)), blockchain st1))"
    using run by simp
  note inst = C9_pending_nonempty_after_mine
    [where H = ?H and B = ?B and st = ?st and ?t1.0 = 5 and ?t2.0 = 6 and info = info
       and ?st1.0 = st1 and miner = "''system''" and calls = ?calls and ?st2.0 = ?st2
       and ?t3.0 = 10 and ?t4.0 = 11, OF mined calls]
  have st1: "snd (the (db_mine_block ?H ?B ?st 5 6)) = st1"
    using run by simp
  have three: "length (pending_transactions (blockchain
      (snd (add_data
         (snd (create_data_model (snd (the (db_mine_block ?H ?B ?st 5 6))) ''Tag''
            [\<lparr>spec_name = Some ''label'', spec_type = Some ''text'', spec_required = None,
              spec_default = PNone, spec_description = None\<rparr>]
            ''labels'' 7 ''t2'' 7 7))
         ''Item'' [(''qty'', PInt 2)] ''r2'' 8 ''t3'' 8 8)))) = 3"
    by (simp add: db_mine_block_def db_mine_block_try_def mine_pending_transactions_def
      get_latest_block_def mine_block.simps calculate_hash_def Block_def
      add_data_def add_data_try_def new_db_def Blockchain_def create_genesis_block_def
      validate_data_def validate_field_def has_key_def dict_get_def type_check_def
      add_to_blockchain_def add_transaction_def Let_def reward_transaction_def
      create_data_model_def create_data_model_try_def to_dict_def asdict_def)
  from inst rw st1 calls three show ?thesis
    by simp
qed

end
